theory Spec2Isabelle
  imports Complex_Main "HOL-Library.List_Lexorder" "HOL-Library.Char_ord"
begin

section \<open>JavaScript values used by the analytics service\<close>

text \<open>
  Numbers are JavaScript doubles in the source.  They are modelled as real numbers:
  every statement below is about the arithmetic the code writes down, not about the
  rounding of binary floating point.

  A plain object used as a dictionary (\<open>Record<string, number>\<close>) is an association list
  in insertion order, which is the order \<open>Object.keys\<close> and \<open>Object.values\<close> enumerate
  for keys that are not array indices (the keys here are option ids and minute strings).
\<close>

type_synonym ('k, 'v) dict = "('k \<times> 'v) list"

definition dict_get :: "('k, 'v) dict \<Rightarrow> 'k \<Rightarrow> 'v option" where
  "dict_get d k = map_of d k"

text \<open>\<open>d[k] = v\<close>: an existing key keeps its position, a new key goes last.\<close>

fun dict_set :: "'k \<Rightarrow> 'v \<Rightarrow> ('k, 'v) dict \<Rightarrow> ('k, 'v) dict" where
  "dict_set k v [] = [(k, v)]"
| "dict_set k v ((k', v') # d) =
     (if k' = k then (k, v) # d else (k', v') # dict_set k v d)"

definition dict_keys :: "('k, 'v) dict \<Rightarrow> 'k list" where
  "dict_keys d = map fst d"

definition dict_values :: "('k, 'v) dict \<Rightarrow> 'v list" where
  "dict_values d = map snd d"

text \<open>\<open>k in d\<close>.\<close>

definition has_key :: "('k, 'v) dict \<Rightarrow> 'k \<Rightarrow> bool" where
  "has_key d k = (k \<in> set (map fst d))"

text \<open>\<open>x || dflt\<close> for a number that may be \<open>undefined\<close>: \<open>undefined\<close> and \<open>0\<close> are falsy.\<close>

definition num_or :: "real option \<Rightarrow> real \<Rightarrow> real" where
  "num_or x dflt = (case x of None \<Rightarrow> dflt | Some v \<Rightarrow> if v = 0 then dflt else v)"

text \<open>\<open>m?.[k]\<close> on a dictionary that may itself be \<open>undefined\<close>.\<close>

definition opt_get :: "('k, 'v) dict option \<Rightarrow> 'k \<Rightarrow> 'v option" where
  "opt_get m k = (case m of None \<Rightarrow> None | Some d \<Rightarrow> dict_get d k)"

text \<open>\<open>values.reduce((sum, v) => sum + v, 0)\<close>.\<close>

definition sum_values :: "real list \<Rightarrow> real" where
  "sum_values vs = foldl (\<lambda>sum v. sum + v) 0 vs"

text \<open>
  \<open>+(x).toFixed(2)\<close> on an exact number: the nearest multiple of 1/100, a tie going to
  the larger magnitude (\<open>toFixed\<close> rounds the absolute value and puts the sign back).
\<close>

definition toFixed2 :: "real \<Rightarrow> real" where
  "toFixed2 x =
     (if x < 0 then - (of_int \<lfloor>- x * 100 + 1 / 2\<rfloor> / 100)
      else of_int \<lfloor>x * 100 + 1 / 2\<rfloor> / 100)"

text \<open>A number that lies exactly in the middle of two neighbouring 2-decimal values.\<close>

definition isTie :: "real \<Rightarrow> bool" where
  "isTie x = (x * 100 - of_int \<lfloor>x * 100\<rfloor> = 1 / 2)"

text \<open>
  \<open>+(c / t * 100).toFixed(2)\<close>, the share of \<open>c\<close> in \<open>t\<close> as a percentage with two
  decimals.  The quotient is computed in doubles.  Where the exact quotient is not a tie,
  the result is the 2-decimal value nearest to it.  Where it is a tie, the double
  quotient may end on either side of the middle (\<open>23 / 160 * 100\<close> is
  \<open>14.374999999999998\<close>, and \<open>toFixed\<close> gives \<open>14.37\<close>), so the direction is not a
  function of the exact arithmetic: \<open>tieUp x\<close> says whether the double arithmetic ends
  at or above the middle for the exact quotient \<open>x\<close>.  Division and multiplication
  round correctly, so the double quotient depends on the exact quotient alone.  Amounts
  and their sums are exact numbers here, as they are in the code for integer amounts.
\<close>

definition pctFixed2 :: "(real \<Rightarrow> bool) \<Rightarrow> real \<Rightarrow> real \<Rightarrow> real" where
  "pctFixed2 tieUp c t =
     (let x = c / t * 100
      in if isTie x then
           (if tieUp x then (of_int \<lfloor>x * 100\<rfloor> + 1) / 100 else of_int \<lfloor>x * 100\<rfloor> / 100)
         else toFixed2 x)"


section \<open>Hour-bucketed variant: data points and the smoother\<close>

text \<open>
  \<open>AnalyticsDataPoint\<close> of the hour-bucketed service.  The timestamp is a \<open>Date\<close>,
  modelled as milliseconds since the epoch; the optional fields are options.
\<close>

record hour_point =
  h_timestamp :: int
  h_percentages :: "(string, real) dict"
  h_totalPool :: real
  h_bettingVelocity :: "real option"
  h_momentum :: "(string, real) dict option"

text \<open>The body of the \<open>else\<close> branch of the loop of \<open>smoothDataPoints\<close>.\<close>

definition smoothPoint :: "hour_point \<Rightarrow> hour_point \<Rightarrow> hour_point \<Rightarrow> hour_point" where
  "smoothPoint prev current next =
     (let smoothedPercentages =
            fold (\<lambda>optionId acc.
                    let prevVal = num_or (dict_get (h_percentages prev) optionId) 0;
                        currentVal = num_or (dict_get (h_percentages current) optionId) 0;
                        nextVal = num_or (dict_get (h_percentages next) optionId) 0
                    in dict_set optionId
                         (prevVal * (2 / 10) + currentVal * (6 / 10) + nextVal * (2 / 10)) acc)
                 (dict_keys (h_percentages current)) [];
          smoothedMomentum =
            fold (\<lambda>optionId acc.
                    let prevMom = num_or (opt_get (h_momentum prev) optionId) 0;
                        currentMom = num_or (opt_get (h_momentum current) optionId) 0;
                        nextMom = num_or (opt_get (h_momentum next) optionId) 0
                    in dict_set optionId
                         (prevMom * (2 / 10) + currentMom * (6 / 10) + nextMom * (2 / 10)) acc)
                 (dict_keys (h_percentages current)) []
      in \<lparr> h_timestamp = h_timestamp current,
           h_percentages = smoothedPercentages,
           h_totalPool = h_totalPool current,
           h_bettingVelocity = h_bettingVelocity current,
           h_momentum = Some smoothedMomentum \<rparr>)"

definition smoothDataPoints :: "hour_point list \<Rightarrow> hour_point list" where
  "smoothDataPoints dataPoints =
     (if length dataPoints < 3 then dataPoints
      else map (\<lambda>i. if i = 0 \<or> i = length dataPoints - 1 then dataPoints ! i
                     else smoothPoint (dataPoints ! (i - 1)) (dataPoints ! i)
                            (dataPoints ! (i + 1)))
               [0 ..< length dataPoints])"


section \<open>The external store\<close>

text \<open>
  Rows of the three tables the service reads, with the columns it uses.  Timestamps
  (\<open>placed_at\<close>, \<open>created_at\<close>) are milliseconds since the epoch.
\<close>

record bet_option =
  opt_id :: string
  opt_event_id :: string
  label :: string
  total_bets :: real
  bettors :: real
  odds :: real
  opt_created_at :: int

record betting_event =
  ev_id :: string
  title :: string
  total_pool :: real
  participant_count :: real
  ev_status :: string

record bet_data =
  bet_event_id :: string
  option_id :: string
  amount :: real
  placed_at :: int
  user_id :: string
  bet_status :: string

datatype table = Bets | Events | Bet_options

text \<open>
  A snapshot of the store: the three tables, and the tables whose reads fail at the
  moment (network, timeout).
\<close>

record store =
  events :: "betting_event list"
  bet_options :: "bet_option list"
  bets :: "bet_data list"
  unavailable :: "table list"

text \<open>
  The error object the database client hands back: the read failed, or \<open>.single()\<close>
  did not find exactly one row.
\<close>

datatype client_error = Unavailable table | NoSingleRow

definition read_table :: "store \<Rightarrow> table \<Rightarrow> 'a list \<Rightarrow> client_error + 'a list" where
  "read_table st t rows = (if t \<in> set (unavailable st) then Inl (Unavailable t) else Inr rows)"

text \<open>\<open>.single()\<close>: the one row of the result, an error for none or several.\<close>

definition single :: "client_error + 'a list \<Rightarrow> client_error + 'a" where
  "single res =
     (case res of Inl e \<Rightarrow> Inl e
      | Inr rows \<Rightarrow> (case rows of [r] \<Rightarrow> Inr r | _ \<Rightarrow> Inl NoSingleRow))"

text \<open>\<open>from('events').select(...).eq('id', eventId).single()\<close>\<close>

definition select_event :: "store \<Rightarrow> string \<Rightarrow> client_error + betting_event" where
  "select_event st eventId =
     single (read_table st Events (filter (\<lambda>e. ev_id e = eventId) (events st)))"

text \<open>What the service throws.\<close>

datatype thrown =
    BetsError client_error          \<comment> \<open>\<open>Error(`Bets error: ...`)\<close>\<close>
  | EventNotFound client_error      \<comment> \<open>\<open>Error(`Event not found: ...`)\<close>\<close>
  | OptionsError client_error       \<comment> \<open>\<open>Error(`Options error: ...`)\<close>\<close>
  | Rethrown client_error           \<comment> \<open>the client's error object, thrown as it is\<close>
  | EventMissing                    \<comment> \<open>\<open>Error('Event not found')\<close>, for a read without error and without row\<close>
  | NoBettingOptions                \<comment> \<open>\<open>Error('No betting options found for this event')\<close>\<close>


section \<open>Minute-bucketed variant\<close>

record minute_point =
  timestamp :: int
  percentages :: "(string, real) dict"
  totalPool :: real
  participantCount :: real
  totalBets :: "(string, real) dict"
  velocity :: real

record OptionMetadata =
  meta_id :: string
  meta_label :: string
  meta_color :: string

text \<open>
  \<open>new Date(placed_at).toISOString().slice(0, 16)\<close>, the minute of a bet.  The string
  \<open>"YYYY-MM-DDTHH:mm"\<close> is modelled as the number of whole minutes since the epoch; for
  four-digit years the order of the strings is the order of these numbers.
\<close>

definition timeKey :: "int \<Rightarrow> int" where
  "timeKey placed = placed div 60000"

text \<open>\<open>timeMap[timeKey]\<close>, the increments of a bucket.\<close>

definition bucket_of :: "(int, (string, real) dict) dict \<Rightarrow> int \<Rightarrow> (string, real) dict" where
  "bucket_of timeMap tk = (case dict_get timeMap tk of None \<Rightarrow> [] | Some m \<Rightarrow> m)"

text \<open>The \<open>bets.forEach\<close> that groups bet amounts by minute and option.\<close>

definition groupBets :: "bet_data list \<Rightarrow> (int, (string, real) dict) dict" where
  "groupBets bs =
     fold (\<lambda>bet timeMap.
             let tk = timeKey (placed_at bet);
                 inner = bucket_of timeMap tk
             in dict_set tk
                  (dict_set (option_id bet)
                     (num_or (dict_get inner (option_id bet)) 0 + amount bet) inner)
                  timeMap)
          bs []"

text \<open>"Update cumulative totals": one bucket's increments added to the running totals.\<close>

definition addBucket :: "(string, real) dict \<Rightarrow> (string, real) dict \<Rightarrow> (string, real) dict" where
  "addBucket poolPerOption cumulativeData =
     fold (\<lambda>(optionId, inc) c. dict_set optionId (num_or (dict_get c optionId) 0 + inc) c)
          poolPerOption cumulativeData"

text \<open>The percentages of one bucket, from the running totals and the option list.\<close>

definition percentagesOf :: "(real \<Rightarrow> bool) \<Rightarrow> (string, real) dict \<Rightarrow> bet_option list \<Rightarrow> (string, real) dict" where
  "percentagesOf tieUp cumulativeData optionsData =
     (let total = sum_values (dict_values cumulativeData);
          computed =
            fold (\<lambda>(optionId, v) p.
                    dict_set optionId (if total > 0 then pctFixed2 tieUp v total else 0) p)
                 cumulativeData []
      in fold (\<lambda>option p. if has_key p (opt_id option) then p
                            else dict_set (opt_id option) 0 p)
              optionsData computed)"

text \<open>
  One pass of the \<open>for (const time of timeBuckets)\<close> loop.  \<open>currentEvent\<close> is the
  answer of the event read made in this pass (\<open>None\<close> when it fails).  \<open>totalBets\<close> is
  filled in by the caller, see \<open>generateOptimizedHistoricalData\<close>.
\<close>

definition bucketPoint ::
  "(real \<Rightarrow> bool) \<Rightarrow> int \<Rightarrow> (string, real) dict \<Rightarrow> bet_option list \<Rightarrow> betting_event option \<Rightarrow> minute_point" where
  "bucketPoint tieUp time cumulativeData optionsData currentEvent =
     \<lparr> timestamp = time,
       percentages = percentagesOf tieUp cumulativeData optionsData,
       totalPool = num_or (map_option total_pool currentEvent)
                     (sum_values (dict_values cumulativeData)),
       participantCount = num_or (map_option participant_count currentEvent) 0,
       totalBets = cumulativeData,
       velocity = 0 \<rparr>"

text \<open>
  The loop over the sorted buckets.  \<open>reads k\<close> is the answer of the \<open>k\<close>-th event read:
  the loop asks the store once per bucket.  Returns the points and the final running
  totals.
\<close>

fun buildHistory ::
  "(real \<Rightarrow> bool) \<Rightarrow> (int, (string, real) dict) dict \<Rightarrow> bet_option list \<Rightarrow> (nat \<Rightarrow> betting_event option) \<Rightarrow>
   int list \<Rightarrow> (string, real) dict \<Rightarrow> nat \<Rightarrow> minute_point list \<times> (string, real) dict" where
  "buildHistory tieUp timeMap optionsData reads [] cumulativeData k = ([], cumulativeData)"
| "buildHistory tieUp timeMap optionsData reads (time # rest) cumulativeData k =
     (let cumulativeData' = addBucket (bucket_of timeMap time) cumulativeData;
          point = bucketPoint tieUp time cumulativeData' optionsData (reads k);
          (points, final) = buildHistory tieUp timeMap optionsData reads rest cumulativeData' (Suc k)
      in (point # points, final))"

definition optionColors :: "string list" where
  "optionColors = [''#16a34a'', ''#dc2626'', ''#facc15'', ''#3b82f6'', ''#8b5cf6'']"

record history_result =
  historicalData :: "minute_point list"
  options :: "OptionMetadata list"

text \<open>
  \<open>generateOptimizedHistoricalData\<close>.  Every pushed point holds a reference to the one
  \<open>cumulativeData\<close> object, which later passes keep updating, so in the returned series
  \<open>totalBets\<close> of every point shows the final totals.
\<close>

definition generateOptimizedHistoricalData ::
  "(real \<Rightarrow> bool) \<Rightarrow> bet_data list \<Rightarrow> bet_option list \<Rightarrow> (nat \<Rightarrow> betting_event option) \<Rightarrow> history_result" where
  "generateOptimizedHistoricalData tieUp bs optionsData reads =
     (let timeMap = groupBets bs;
          timeBuckets = sort (dict_keys timeMap);
          (points, final) = buildHistory tieUp timeMap optionsData reads timeBuckets [] 0
      in \<lparr> historicalData = map (\<lambda>p. p\<lparr>totalBets := final\<rparr>) points,
           options = map (\<lambda>(opt, idx).
                            \<lparr> meta_id = opt_id opt, meta_label = label opt,
                              meta_color = optionColors ! (idx mod length optionColors) \<rparr>)
                         (zip optionsData [0 ..< length optionsData]) \<rparr>)"

text \<open>
  The running totals after the buckets up to and including bucket \<open>i\<close>, as the loop of
  \<open>generateOptimizedHistoricalData\<close> holds them when it computes the percentages of that
  bucket.
\<close>

definition cumulativeAt :: "bet_data list \<Rightarrow> nat \<Rightarrow> (string, real) dict" where
  "cumulativeAt bs i =
     (let timeMap = groupBets bs
      in fold (\<lambda>time c. addBucket (bucket_of timeMap time) c)
              (take (Suc i) (sort (dict_keys timeMap))) [])"


subsection \<open>Insights of the minute-bucketed variant\<close>

datatype volatility = Low | Medium | High

datatype trend = Rising | Falling | Stable

text \<open>
  The insights object.  \<open>peakBettingTime\<close> is \<open>peakBettingHour\<close> printed with
  \<open>":00"\<close> after it and is left out; \<open>lastMajorShift\<close> is the timestamp of a point,
  \<open>None\<close> for \<open>undefined\<close>.
\<close>

record insights =
  leadingOption :: string
  volatility :: volatility
  trend :: trend
  peakBettingHour :: nat
  averageVelocity :: real
  totalBettingVelocity :: real
  volatilityScore :: real
  trendingOption :: string
  lastMajorShift :: "int option"

text \<open>\<open>point.percentages[id] || 0\<close>\<close>

definition pctOf :: "string \<Rightarrow> minute_point \<Rightarrow> real" where
  "pctOf optionId point = num_or (dict_get (percentages point) optionId) 0"

text \<open>
  The loops \<open>for (let i = historicalData.length - 1; i > 0; i--)\<close> that look for the
  last major shift: \<open>shiftScan hasShift hist i\<close> runs the loop from index \<open>i\<close> down and
  gives the point at which it breaks.  \<open>hasShift previous current\<close> is the test of the
  loop body.
\<close>

fun shiftScan :: "('p \<Rightarrow> 'p \<Rightarrow> bool) \<Rightarrow> 'p list \<Rightarrow> nat \<Rightarrow> 'p option" where
  "shiftScan hasShift hist 0 = None"
| "shiftScan hasShift hist (Suc k) =
     (if hasShift (hist ! k) (hist ! Suc k) then Some (hist ! Suc k)
      else shiftScan hasShift hist k)"

text \<open>"Find last major shift (>5% change in leading option)".\<close>

definition lastMajorShiftOf :: "string \<Rightarrow> minute_point list \<Rightarrow> int option" where
  "lastMajorShiftOf leadingId hist =
     map_option timestamp
       (shiftScan (\<lambda>previous current. \<bar>pctOf leadingId current - pctOf leadingId previous\<bar> > 5)
          hist (length hist - 1))"

text \<open>"Calculate trend".\<close>

definition trendOf :: "string \<Rightarrow> minute_point list \<Rightarrow> trend" where
  "trendOf leadingId hist =
     (if length hist > 2 then
        (let recent = drop (length hist - 3) hist;
             leadingPercentages = map (pctOf leadingId) recent;
             firstPercentage = hd leadingPercentages;
             lastPercentage = last leadingPercentages;
             change = lastPercentage - firstPercentage
         in if change > 2 then Rising else if change < -2 then Falling else Stable)
      else Stable)"

text \<open>"Calculate volatility based on percentage changes": the class and the score.\<close>

definition volatilityOf :: "string \<Rightarrow> minute_point list \<Rightarrow> volatility \<times> real" where
  "volatilityOf leadingId hist =
     (if length hist > 1 then
        (let changes = map (\<lambda>(prevPoint, point). \<bar>pctOf leadingId point - pctOf leadingId prevPoint\<bar>)
                         (zip hist (tl hist));
             avgChange = sum_values changes / of_nat (length changes)
         in (if avgChange > 10 then High else if avgChange > 5 then Medium else Low,
             min 100 (avgChange * 10)))
      else (Low, 0))"

text \<open>
  "Find peak betting hour".  \<open>hours\<close> is \<open>Date.getHours\<close> in the time zone of the
  machine, a number from 0 to 23.
\<close>

definition peakHourOf :: "(int \<Rightarrow> nat) \<Rightarrow> bet_data list \<Rightarrow> nat" where
  "peakHourOf hours bs =
     (let hourlyBets = fold (\<lambda>bet hb. hb[hours (placed_at bet) := Suc (hb ! hours (placed_at bet))])
                            bs (replicate 24 (0::nat));
          m = fold max hourlyBets 0
      in length (takeWhile (\<lambda>c. c \<noteq> m) hourlyBets))"

text \<open>"Find leading option": \<open>options.reduce\<close> without a start value.\<close>

definition leadingOf :: "bet_option \<Rightarrow> bet_option list \<Rightarrow> bet_option" where
  "leadingOf first others =
     foldl (\<lambda>prev current. if total_bets current > total_bets prev then current else prev)
           first others"

definition calculateEnhancedInsights ::
  "(int \<Rightarrow> nat) \<Rightarrow> bet_option list \<Rightarrow> minute_point list \<Rightarrow> bet_data list \<Rightarrow> insights" where
  "calculateEnhancedInsights hours opts hist bs =
     (case opts of
        [] \<Rightarrow> \<lparr> leadingOption = ''No options available'', volatility = Low, trend = Stable,
                 peakBettingHour = 0, averageVelocity = 0, totalBettingVelocity = 0,
                 volatilityScore = 0, trendingOption = ''No options available'',
                 lastMajorShift = None \<rparr>
      | first # others \<Rightarrow>
         (let leading = leadingOf first others;
              (vol, score) = volatilityOf (opt_id leading) hist;
              velocities = map velocity hist;
              avgVelocity = (if length velocities > 0
                             then sum_values velocities / of_nat (length velocities) else 0);
              latestPct = (\<lambda>optionId. if hist = [] then 0 else pctOf optionId (last hist));
              trending = foldl (\<lambda>prev current.
                                  if latestPct (opt_id current) > latestPct (opt_id prev)
                                  then current else prev)
                               first others
          in \<lparr> leadingOption = label leading, volatility = vol,
               trend = trendOf (opt_id leading) hist,
               peakBettingHour = peakHourOf hours bs,
               averageVelocity = avgVelocity, totalBettingVelocity = avgVelocity,
               volatilityScore = score, trendingOption = label trending,
               lastMajorShift = lastMajorShiftOf (opt_id leading) hist \<rparr>))"

subsection \<open>The facade of the minute-bucketed variant\<close>

definition getOptionColor :: "nat \<Rightarrow> string" where
  "getOptionColor index =
     [''#16a34a'', ''#dc2626'', ''#facc15'', ''#3b82f6'', ''#8b5cf6'', ''#06B6D4'',
      ''#F97316'', ''#84CC16''] ! (index mod 8)"

record event_analytics =
  ea_event :: betting_event
  ea_options :: "(bet_option \<times> string) list"
  ea_currentPercentages :: "(string, real) dict"
  ea_historicalData :: "minute_point list"
  ea_totalPool :: real
  ea_insights :: insights

text \<open>
  \<open>getEventAnalytics\<close> of the minute-bucketed service.  The reads follow the order of
  the source: bets, event, options; the rows come back in the order the query asks for.
  Each pass of the history loop reads the event again, from the same snapshot here.
\<close>

definition getEventAnalytics ::
  "(real \<Rightarrow> bool) \<Rightarrow> (int \<Rightarrow> nat) \<Rightarrow> store \<Rightarrow> string \<Rightarrow> thrown + event_analytics" where
  "getEventAnalytics tieUp hours st eventId =
     (case read_table st Bets
             (sort_key placed_at (filter (\<lambda>b. bet_event_id b = eventId) (bets st))) of
        Inl betsError \<Rightarrow> Inl (BetsError betsError)
      | Inr bs \<Rightarrow>
     (case select_event st eventId of
        Inl eventError \<Rightarrow> Inl (EventNotFound eventError)
      | Inr event \<Rightarrow>
     (case read_table st Bet_options
             (sort_key label (filter (\<lambda>opt. opt_event_id opt = eventId) (bet_options st))) of
        Inl optionsError \<Rightarrow> Inl (OptionsError optionsError)
      | Inr optionsData \<Rightarrow>
         (let reads = (\<lambda>k. case select_event st eventId of Inl e \<Rightarrow> None | Inr ev \<Rightarrow> Some ev);
              hist = historicalData (generateOptimizedHistoricalData tieUp bs optionsData reads);
              pool = total_pool event;
              current = fold (\<lambda>option cp.
                                dict_set (opt_id option)
                                  (if pool > 0 then total_bets option / pool * 100 else 0) cp)
                             optionsData []
          in Inr \<lparr> ea_event = event,
                   ea_options = map (\<lambda>(option, index). (option, getOptionColor index))
                                    (zip optionsData [0 ..< length optionsData]),
                   ea_currentPercentages = current,
                   ea_historicalData = hist,
                   ea_totalPool = pool,
                   ea_insights = calculateEnhancedInsights hours optionsData hist bs \<rparr>))))"

subsection \<open>The realtime snapshot\<close>

record realtime_stats =
  rt_timestamp :: int
  rt_percentages :: "(string, real) dict"
  rt_totalPool :: real
  rt_participantCount :: real
  rt_bettingVelocity :: nat
  rt_momentum :: "(string, real) dict"
  rt_options :: "(bet_option \<times> string) list"

text \<open>
  The \<open>options.forEach\<close> of \<open>getRealTimeBettingStats\<close> that fills \<open>momentum\<close>:
  the amount bet on the option in the last hour, relative to the option's total.
\<close>

definition realtimeMomentum :: "bet_option list \<Rightarrow> bet_data list \<Rightarrow> (string, real) dict" where
  "realtimeMomentum opts recentBets =
     fold (\<lambda>option m.
             let recentBetsForOption = filter (\<lambda>bet. option_id bet = opt_id option) recentBets;
                 recentAmount = foldl (\<lambda>sum bet. sum + amount bet) 0 recentBetsForOption
             in dict_set (opt_id option)
                  (if recentAmount > 0
                   then recentAmount / num_or (Some (total_bets option)) 1 * 100 else 0) m)
          opts []"

text \<open>
  \<open>getRealTimeBettingStats\<close>; \<open>now\<close> is the clock when the window of one hour is cut,
  \<open>stamp\<close> the clock when the result is built.
\<close>

definition getRealTimeBettingStats ::
  "(real \<Rightarrow> bool) \<Rightarrow> store \<Rightarrow> int \<Rightarrow> int \<Rightarrow> string \<Rightarrow> thrown + realtime_stats" where
  "getRealTimeBettingStats tieUp st now stamp eventId =
     (case select_event st eventId of
        Inl eventError \<Rightarrow> Inl (Rethrown eventError)
      | Inr event \<Rightarrow>
     (case read_table st Bet_options
             (filter (\<lambda>opt. opt_event_id opt = eventId) (bet_options st)) of
        Inl optionsError \<Rightarrow> Inl (Rethrown optionsError)
      | Inr opts \<Rightarrow>
     (case read_table st Bets
             (filter (\<lambda>b. bet_event_id b = eventId \<and> placed_at b \<ge> now - 60 * 60 * 1000)
                     (bets st)) of
        Inl recentBetsError \<Rightarrow> Inl (Rethrown recentBetsError)
      | Inr recentBets \<Rightarrow>
         (let pool = total_pool event
          in Inr \<lparr> rt_timestamp = stamp,
                   rt_percentages =
                     fold (\<lambda>option p.
                             dict_set (opt_id option)
                               (if pool > 0 then pctFixed2 tieUp (total_bets option) pool else 0) p)
                          opts [],
                   rt_totalPool = pool,
                   rt_participantCount = participant_count event,
                   rt_bettingVelocity = length recentBets,
                   rt_momentum = realtimeMomentum opts recentBets,
                   rt_options = map (\<lambda>(option, index). (option, getOptionColor index))
                                    (zip opts [0 ..< length opts]) \<rparr>))))"


section \<open>Server-side variant (edge function)\<close>

text \<open>
  The edge function divides by the total of the bucket without a guard; a division by
  zero gives \<open>NaN\<close> or an infinity, which \<open>JSON.stringify\<close> writes as \<open>null\<close>: \<open>None\<close>
  here.
\<close>

record edge_point =
  edge_timestamp :: int
  edge_percentages :: "(string, real option) dict"
  edge_totalPool :: real
  edge_participantCount :: real

definition edgePoint :: "(real \<Rightarrow> bool) \<Rightarrow> int \<Rightarrow> (string, real) dict \<Rightarrow> betting_event option \<Rightarrow> edge_point" where
  "edgePoint tieUp time poolPerOption eventMeta =
     (let total = foldl (\<lambda>a b. a + b) 0 (dict_values poolPerOption)
      in \<lparr> edge_timestamp = time,
           edge_percentages =
             fold (\<lambda>(optionId, v) p.
                     dict_set optionId
                       (if total = 0 then None else Some (pctFixed2 tieUp v total)) p)
                  poolPerOption [],
           edge_totalPool = num_or (map_option total_pool eventMeta) 0,
           edge_participantCount = num_or (map_option participant_count eventMeta) 0 \<rparr>)"

definition edgeHistoricalData :: "(real \<Rightarrow> bool) \<Rightarrow> bet_data list \<Rightarrow> betting_event option \<Rightarrow> edge_point list" where
  "edgeHistoricalData tieUp bs eventMeta =
     (let timeMap = groupBets bs;
          timeBuckets = sort (dict_keys timeMap)
      in map (\<lambda>time. edgePoint tieUp time (bucket_of timeMap time) eventMeta) timeBuckets)"

datatype response =
    BadRequest                                        \<comment> \<open>status 400, "Missing event\_id"\<close>
  | ServerError client_error                          \<comment> \<open>status 500\<close>
  | Ok "edge_point list" "OptionMetadata list"        \<comment> \<open>status 200\<close>

text \<open>The handler passed to \<open>serve\<close>; \<open>None\<close> is a request without \<open>event_id\<close>.\<close>

definition edgeHandler :: "(real \<Rightarrow> bool) \<Rightarrow> store \<Rightarrow> string option \<Rightarrow> response" where
  "edgeHandler tieUp st req =
     (case req of None \<Rightarrow> BadRequest
      | Some eventId \<Rightarrow>
         (case read_table st Bets
                 (sort_key placed_at (filter (\<lambda>b. bet_event_id b = eventId) (bets st))) of
            Inl e \<Rightarrow> ServerError e
          | Inr bs \<Rightarrow>
             (let eventMeta = (case select_event st eventId of Inl e \<Rightarrow> None | Inr ev \<Rightarrow> Some ev);
                  optionsData =
                    (case read_table st Bet_options
                            (filter (\<lambda>opt. opt_event_id opt = eventId) (bet_options st)) of
                       Inl e \<Rightarrow> [] | Inr rows \<Rightarrow> rows)
              in Ok (edgeHistoricalData tieUp bs eventMeta)
                    (map (\<lambda>(opt, idx).
                            \<lparr> meta_id = opt_id opt, meta_label = label opt,
                              meta_color = optionColors ! (idx mod length optionColors) \<rparr>)
                         (zip optionsData [0 ..< length optionsData])))))"


section \<open>Hour-bucketed variant: history, fallback, insights, facade\<close>

text \<open>An option as \<open>getEventAnalytics\<close> passes it on: the row, its colour, \<open>totalBets\<close>.\<close>

record hour_option =
  row :: bet_option
  color :: string
  optTotalBets :: real

definition OPTION_COLORS :: "string list" where
  "OPTION_COLORS = [''#3B82F6'', ''#EF4444'', ''#10B981'', ''#F59E0B'', ''#8B5CF6'',
                    ''#06B6D4'', ''#F97316'', ''#84CC16'']"

definition hid :: "hour_option \<Rightarrow> string" where
  "hid option = opt_id (row option)"

text \<open>Every option at the same value: the equal split and the zero momentum.\<close>

definition constDict :: "hour_option list \<Rightarrow> real \<Rightarrow> (string, real) dict" where
  "constDict opts v = fold (\<lambda>option d. dict_set (hid option) v d) opts []"

text \<open>\<open>generateEmptyHistoricalData\<close>: 24 points, one per hour, ending at \<open>now\<close>.\<close>

definition generateEmptyHistoricalData :: "int \<Rightarrow> hour_option list \<Rightarrow> hour_point list" where
  "generateEmptyHistoricalData now opts =
     (let equalShare = 100 / of_nat (length opts)
      in map (\<lambda>i. \<lparr> h_timestamp = now - int i * 60 * 60 * 1000,
                     h_percentages = constDict opts equalShare,
                     h_totalPool = 0,
                     h_bettingVelocity = Some 0,
                     h_momentum = Some (constDict opts 0) \<rparr>)
             (rev [0 ..< 24]))"

text \<open>
  A value read back from a dictionary that was filled from the same option list just
  before; the key is there, and the default stands for a case that does not arise.
\<close>

definition present :: "(string, real) dict \<Rightarrow> string \<Rightarrow> real" where
  "present d k = (case dict_get d k of None \<Rightarrow> 0 | Some v \<Rightarrow> v)"

text \<open>
  One pass of the loop \<open>for (let i = totalHours - 1; i >= 0; i--)\<close> of
  \<open>generateRealHistoricalData\<close>: the point of the hour that ends \<open>i\<close> hours before
  \<open>now\<close>, appended to the points so far.
\<close>

definition realStep ::
  "bet_data list \<Rightarrow> hour_option list \<Rightarrow> int \<Rightarrow> nat \<Rightarrow> hour_point list \<Rightarrow> hour_point list" where
  "realStep allBets opts now i dataPoints =
     (let hourStart = now - (int i + 1) * 60 * 60 * 1000;
          hourEnd = now - int i * 60 * 60 * 1000;
          betsUpToThisHour = filter (\<lambda>bet. placed_at bet \<le> hourEnd) allBets;
          betsInThisHour = filter (\<lambda>bet. placed_at bet > hourStart \<and> placed_at bet \<le> hourEnd)
                                  allBets
      in if length betsUpToThisHour = 0 then
           dataPoints @
             [\<lparr> h_timestamp = hourEnd,
                h_percentages = constDict opts (100 / of_nat (length opts)),
                h_totalPool = 0,
                h_bettingVelocity = Some 0,
                h_momentum = Some (constDict opts 0) \<rparr>]
         else
           (let optionTotals =
                  fold (\<lambda>bet t. dict_set (option_id bet)
                                   (num_or (dict_get t (option_id bet)) 0 + amount bet) t)
                       betsUpToThisHour [];
                totalAmount = fold (\<lambda>bet total. total + amount bet) betsUpToThisHour 0;
                pcts =
                  fold (\<lambda>option p.
                          let optionAmount = num_or (dict_get optionTotals (hid option)) 0
                          in dict_set (hid option)
                               (if totalAmount > 0 then optionAmount / totalAmount * 100
                                else 100 / of_nat (length opts)) p)
                       opts [];
                mom =
                  (if length dataPoints > 0 then
                     (let previousPoint = last dataPoints
                      in fold (\<lambda>option m.
                                 dict_set (hid option)
                                   (present pcts (hid option)
                                    - present (h_percentages previousPoint) (hid option)) m)
                              opts [])
                   else constDict opts 0)
            in dataPoints @
                 [\<lparr> h_timestamp = hourEnd,
                    h_percentages = pcts,
                    h_totalPool = totalAmount,
                    h_bettingVelocity = Some (of_nat (length betsInThisHour)),
                    h_momentum = Some mom \<rparr>]))"

text \<open>The 24 passes of the loop, before smoothing.\<close>

definition realDataPoints :: "bet_data list \<Rightarrow> hour_option list \<Rightarrow> int \<Rightarrow> hour_point list" where
  "realDataPoints allBets opts now =
     fold (\<lambda>i dataPoints. realStep allBets opts now i dataPoints) (rev [0 ..< 24]) []"

text \<open>
  \<open>generateFallbackHistoricalData\<close>.  \<open>rnd k\<close> is what the \<open>k\<close>-th call of
  \<open>Math.random\<close> returns.  A pass draws once per option, then once for the pool and
  once for the velocity; \<open>k\<close> counts the draws made before it.
\<close>

definition fallbackPoint ::
  "(nat \<Rightarrow> real) \<Rightarrow> int \<Rightarrow> hour_option list \<Rightarrow> real \<Rightarrow> (string, real) dict \<Rightarrow>
   nat \<Rightarrow> nat \<Rightarrow> hour_point" where
  "fallbackPoint rnd now opts totalBetsSum currentPercentages i k =
     (let variationFactor = min (of_nat i / 12) 1;
          raw = fold (\<lambda>(option, index) (p, m).
                        let currentPerc = present currentPercentages (hid option);
                            baseVariation = (rnd (k + index) - 1 / 2) * 20 * variationFactor;
                            timePattern = sin ((of_nat i + of_nat index * 2) / 6) * 10
                                            * variationFactor;
                            historicalPerc = max 5 (min 85 (currentPerc + baseVariation + timePattern))
                        in (dict_set (hid option) historicalPerc p,
                            dict_set (hid option) baseVariation m))
                     (zip opts [0 ..< length opts]) ([], []);
          total = sum_values (dict_values (fst raw));
          normalised = fold (\<lambda>key p. dict_set key (present p key / total * 100) p)
                            (dict_keys (fst raw)) (fst raw);
          growthFactor = 3 / 10 + (7 / 10 * (23 - of_nat i) / 23);
          randomVariation = 8 / 10 + rnd (k + length opts) * (4 / 10);
          estimatedPool = totalBetsSum * 50 * growthFactor * randomVariation
      in \<lparr> h_timestamp = now - int i * 60 * 60 * 1000,
           h_percentages = normalised,
           h_totalPool = max 0 estimatedPool,
           h_bettingVelocity = Some (of_int \<lfloor>rnd (k + length opts + 1) * 5\<rfloor> + 1),
           h_momentum = Some (snd raw) \<rparr>)"

definition generateFallbackHistoricalData ::
  "(nat \<Rightarrow> real) \<Rightarrow> int \<Rightarrow> hour_option list \<Rightarrow> hour_point list" where
  "generateFallbackHistoricalData rnd now opts =
     (let totalBetsSum = foldl (\<lambda>sum option. sum + optTotalBets option) 0 opts;
          currentPercentages =
            (if totalBetsSum > 0
             then fold (\<lambda>option d. dict_set (hid option) (optTotalBets option / totalBetsSum * 100) d)
                       opts []
             else constDict opts (100 / of_nat (length opts)))
      in map (\<lambda>j. fallbackPoint rnd now opts totalBetsSum currentPercentages
                     (23 - j) (j * (length opts + 2)))
             [0 ..< 24])"

text \<open>
  \<open>generateRealHistoricalData\<close>.  \<open>betsRead\<close> is the answer of the read of the active
  bets of the event, in the order of \<open>placed_at\<close>; a failed read is caught and the
  fallback series is returned in its place.
\<close>

definition generateRealHistoricalData ::
  "(nat \<Rightarrow> real) \<Rightarrow> int \<Rightarrow> client_error + bet_data list \<Rightarrow> hour_option list \<Rightarrow>
   hour_point list" where
  "generateRealHistoricalData rnd now betsRead opts =
     (case betsRead of
        Inl error \<Rightarrow> generateFallbackHistoricalData rnd now opts
      | Inr allBets \<Rightarrow>
          if length allBets = 0 then generateEmptyHistoricalData now opts
          else smoothDataPoints (realDataPoints allBets opts now))"

record hour_insights =
  hi_peakBettingHour :: nat
  hi_totalBettingVelocity :: real
  hi_trendingOption :: string
  hi_volatilityScore :: "real option"
  hi_lastMajorShift :: "int option"

text \<open>\<open>point.percentages[id] || 0\<close> and \<open>point.momentum?.[id] || 0\<close>\<close>

definition hpct :: "string \<Rightarrow> hour_point \<Rightarrow> real" where
  "hpct optionId point = num_or (dict_get (h_percentages point) optionId) 0"

definition hmom :: "string \<Rightarrow> hour_point \<Rightarrow> real" where
  "hmom optionId point = num_or (opt_get (h_momentum point) optionId) 0"

text \<open>"Find last major shift (>10% change in any option)".\<close>

definition hourLastMajorShift :: "hour_option list \<Rightarrow> hour_point list \<Rightarrow> int option" where
  "hourLastMajorShift opts hist =
     map_option h_timestamp
       (shiftScan (\<lambda>previous current.
                     list_ex (\<lambda>option. \<bar>hpct (hid option) current - hpct (hid option) previous\<bar> > 10)
                             opts)
          hist (length hist - 1))"

text \<open>
  \<open>generateEventInsights\<close>.  With no point or no option the body throws a
  \<open>TypeError\<close> and the \<open>catch\<close> returns the defaults.  The mean of no change is
  \<open>NaN\<close>, \<open>None\<close> here.
\<close>

definition generateEventInsights ::
  "(int \<Rightarrow> nat) \<Rightarrow> hour_point list \<Rightarrow> hour_option list \<Rightarrow> hour_insights" where
  "generateEventInsights hours hist opts =
     (if hist = [] \<or> opts = [] then
        \<lparr> hi_peakBettingHour = 0, hi_totalBettingVelocity = 0,
          hi_trendingOption = (case opts of [] \<Rightarrow> ''Unknown''
                               | first # others \<Rightarrow>
                                   if label (row first) = [] then ''Unknown'' else label (row first)),
          hi_volatilityScore = Some 0, hi_lastMajorShift = None \<rparr>
      else
        (let vel = (\<lambda>point. num_or (h_bettingVelocity point) 0);
             hourlyVolume =
               fold (\<lambda>point hv.
                       let hour = hours (h_timestamp point)
                       in dict_set hour (num_or (dict_get hv hour) 0 + vel point) hv)
                    hist [];
             peak = foldl (\<lambda>(peakHour, peakVolume) (hour, volume).
                             if volume > peakVolume then (hour, volume) else (peakHour, peakVolume))
                          (0, 0) (sort_key fst hourlyVolume);
             latestData = last hist;
             trending = foldl (\<lambda>trending option.
                                 if hmom (hid option) latestData > hmom (hid trending) latestData
                                 then option else trending)
                              (hd opts) opts;
             mean = (\<lambda>option.
                       sum_values (map (\<lambda>(previous, current).
                                          \<bar>hpct (hid option) current - hpct (hid option) previous\<bar>)
                                       (zip hist (tl hist)))
                       / of_nat (length hist - 1))
         in \<lparr> hi_peakBettingHour = fst peak,
              hi_totalBettingVelocity = sum_values (map vel hist) / of_nat (length hist),
              hi_trendingOption = label (row trending),
              hi_volatilityScore =
                (if length hist < 2 then None
                 else Some (sum_values (map mean opts) / of_nat (length opts))),
              hi_lastMajorShift = hourLastMajorShift opts hist \<rparr>))"

record hour_analytics =
  ha_eventId :: string
  ha_options :: "hour_option list"
  ha_totalPool :: real
  ha_participantCount :: real
  ha_historicalData :: "hour_point list"
  ha_insights :: hour_insights

text \<open>
  \<open>getEventAnalytics\<close> of the hour-bucketed service: the event, then its options in
  the order of \<open>created_at\<close>, then the history from the active bets and the insights.
  \<open>.single()\<close> gives a row or an error, so the check \<open>!event\<close> after it never fires.
\<close>

definition hourGetEventAnalytics ::
  "(nat \<Rightarrow> real) \<Rightarrow> (int \<Rightarrow> nat) \<Rightarrow> int \<Rightarrow> store \<Rightarrow> string \<Rightarrow>
   thrown + hour_analytics" where
  "hourGetEventAnalytics rnd hours now st eventId =
     (case select_event st eventId of
        Inl eventError \<Rightarrow> Inl (Rethrown eventError)
      | Inr event \<Rightarrow>
     (case read_table st Bet_options
             (sort_key opt_created_at (filter (\<lambda>opt. opt_event_id opt = eventId) (bet_options st))) of
        Inl optionsError \<Rightarrow> Inl (Rethrown optionsError)
      | Inr rows \<Rightarrow>
          if length rows = 0 then Inl NoBettingOptions
          else
            (let optionsWithColors =
                   map (\<lambda>(option, index).
                          \<lparr> row = option,
                            color = OPTION_COLORS ! (index mod length OPTION_COLORS),
                            optTotalBets = total_bets option \<rparr>)
                       (zip rows [0 ..< length rows]);
                 betsRead = read_table st Bets
                              (sort_key placed_at
                                 (filter (\<lambda>b. bet_event_id b = eventId \<and> bet_status b = ''active'')
                                         (bets st)));
                 hist = generateRealHistoricalData rnd now betsRead optionsWithColors
             in Inr \<lparr> ha_eventId = eventId,
                      ha_options = optionsWithColors,
                      ha_totalPool = total_pool event,
                      ha_participantCount = participant_count event,
                      ha_historicalData = hist,
                      ha_insights = generateEventInsights hours hist optionsWithColors \<rparr>)))"


section \<open>Sample data\<close>

text \<open>\<open>Date.getHours\<close> on a machine whose time zone is UTC.\<close>

definition utcHours :: "int \<Rightarrow> nat" where
  "utcHours t = nat ((t div 3600000) mod 24)"

definition sampleBet :: "string \<Rightarrow> real \<Rightarrow> int \<Rightarrow> bet_data" where
  "sampleBet optionId amt placed =
     \<lparr> bet_event_id = ''e1'', option_id = optionId, amount = amt, placed_at = placed,
       user_id = ''u1'', bet_status = ''active'' \<rparr>"

definition sampleOption :: "string \<Rightarrow> real \<Rightarrow> bet_option" where
  "sampleOption optionId tot =
     \<lparr> opt_id = optionId, opt_event_id = ''e1'', label = optionId, total_bets = tot,
       bettors = 1, odds = 2, opt_created_at = 0 \<rparr>"

text \<open>
  The direction of the double arithmetic at the ties of the sample data: \<open>23 / 160 * 100\<close>
  is \<open>14.374999999999998\<close>, below the middle, and \<open>137 / 160 * 100\<close> is \<open>85.625\<close>,
  the middle itself, which \<open>toFixed\<close> rounds up.  No other share of the sample data is
  a tie.
\<close>

definition doubleTies :: "real \<Rightarrow> bool" where
  "doubleTies x = (x = 685 / 8)"


text \<open>Every event read of the history loop fails.\<close>

definition noEventRead :: "nat \<Rightarrow> betting_event option" where
  "noEventRead k = None"

text \<open>Scenario A: 100 on option A, and 300 on option B one hour later.\<close>

definition scenarioA :: "bet_data list" where
  "scenarioA = [sampleBet ''A'' 100 0, sampleBet ''B'' 300 3600000]"

definition scenarioA_options :: "bet_option list" where
  "scenarioA_options = [sampleOption ''A'' 100, sampleOption ''B'' 300]"

text \<open>An event with 31 options and, in one minute, one bet of 1 on each of them.\<close>

definition manyOptionBets :: "bet_data list" where
  "manyOptionBets = map (\<lambda>c. sampleBet [c] 1 0) ''abcdefghijklmnopqrstuvwxyzABCDE''"

definition sampleEvent :: betting_event where
  "sampleEvent = \<lparr> ev_id = ''e1'', title = ''Match'', total_pool = 400, participant_count = 2,
       ev_status = ''active'' \<rparr>"

definition scenarioA_store :: store where
  "scenarioA_store = \<lparr> events = [sampleEvent], bet_options = scenarioA_options,
       bets = scenarioA, unavailable = [] \<rparr>"

text \<open>
  A ledger on which option A keeps half of the pool while B and C trade places:
  50/30/20 in the first minute, then 20 more on A and on C.
\<close>

definition shiftBets :: "bet_data list" where
  "shiftBets = [sampleBet ''A'' 50 0, sampleBet ''B'' 30 0, sampleBet ''C'' 20 0,
                sampleBet ''A'' 20 60000, sampleBet ''C'' 20 60000]"

definition shiftOptions :: "bet_option list" where
  "shiftOptions = [sampleOption ''A'' 70, sampleOption ''B'' 30, sampleOption ''C'' 40]"

text \<open>A ledger of two minutes: 10 on option B, then 100 on option A.\<close>

definition risingBets :: "bet_data list" where
  "risingBets = [sampleBet ''B'' 10 0, sampleBet ''A'' 100 60000]"

definition risingOptions :: "bet_option list" where
  "risingOptions = [sampleOption ''A'' 100, sampleOption ''B'' 10]"

text \<open>Three minutes: 10 on B, then 100 on A, then 100 more on A.\<close>

definition risingBets3 :: "bet_data list" where
  "risingBets3 = [sampleBet ''B'' 10 0, sampleBet ''A'' 100 60000, sampleBet ''A'' 100 120000]"

text \<open>The event exists, and there is neither an option nor a bet for it.\<close>

definition emptyOptionsStore :: store where
  "emptyOptionsStore = \<lparr> events = [sampleEvent], bet_options = [], bets = [], unavailable = [] \<rparr>"

text \<open>Two sources of random numbers: every draw 0, and every draw 0.9.\<close>

definition noDraw :: "nat \<Rightarrow> real" where
  "noDraw k = 0"

definition highDraw :: "nat \<Rightarrow> real" where
  "highDraw k = 9 / 10"

text \<open>The store of Scenario A while the reads of the bets fail.\<close>

definition betsDownStore :: store where
  "betsDownStore = \<lparr> events = [sampleEvent], bet_options = scenarioA_options,
       bets = scenarioA, unavailable = [Bets] \<rparr>"

text \<open>The event exists and has one bet, on an option that is not listed.\<close>

definition orphanBetStore :: store where
  "orphanBetStore = \<lparr> events = [sampleEvent], bet_options = [],
       bets = [sampleBet ''A'' 100 0], unavailable = [] \<rparr>"

text \<open>
  Option A with a stored total of 200 and one bet of 100; option B with a negative stored
  total and no bet.
\<close>

definition momentumStore :: store where
  "momentumStore = \<lparr> events = [sampleEvent],
       bet_options = [sampleOption ''A'' 200, sampleOption ''B'' (- 5)],
       bets = [sampleBet ''A'' 100 0], unavailable = [] \<rparr>"



definition sampleHourOption :: "string \<Rightarrow> real \<Rightarrow> hour_option" where
  "sampleHourOption optionId tot =
     \<lparr> row = sampleOption optionId tot, color = ''#3B82F6'', optTotalBets = tot \<rparr>"

definition thirdsOptions :: "hour_option list" where
  "thirdsOptions = [sampleHourOption ''A'' 1, sampleHourOption ''B'' 2]"

text \<open>Three sample points of a two-option event, used to run the smoother.\<close>

definition sample_p1 :: hour_point where
  "sample_p1 = \<lparr> h_timestamp = 0, h_percentages = [(''A'', 50), (''B'', 50)],
       h_totalPool = 0, h_bettingVelocity = Some 0,
       h_momentum = Some [(''A'', 0), (''B'', 0)] \<rparr>"

definition sample_p2 :: hour_point where
  "sample_p2 = \<lparr> h_timestamp = 3600000, h_percentages = [(''A'', 100), (''B'', 0)],
       h_totalPool = 100, h_bettingVelocity = Some 1,
       h_momentum = Some [(''A'', 50), (''B'', -50)] \<rparr>"

definition sample_p3 :: hour_point where
  "sample_p3 = \<lparr> h_timestamp = 7200000, h_percentages = [(''A'', 25), (''B'', 75)],
       h_totalPool = 400, h_bettingVelocity = Some 1,
       h_momentum = Some [(''A'', -75), (''B'', 75)] \<rparr>"


section \<open>Dictionary lemmas\<close>

lemma dict_get_dict_set:
  "dict_get (dict_set k v d) k' = (if k' = k then Some v else dict_get d k')"
  by (induction d) (auto simp: dict_get_def)

lemma dict_get_fold_set:
  "dict_get (fold (\<lambda>k acc. dict_set k (g k) acc) ks d) k'
     = (if k' \<in> set ks then Some (g k') else dict_get d k')"
  by (induction ks arbitrary: d) (auto simp: dict_get_dict_set)

lemma keys_dict_set:
  "set (dict_keys (dict_set k v d)) = insert k (set (dict_keys d))"
proof (induction d)
  case Nil
  then show ?case by (simp add: dict_keys_def)
next
  case (Cons a d)
  then show ?case by (cases a) (auto simp: dict_keys_def)
qed


lemma keys_fold_set:
  "set (dict_keys (fold (\<lambda>k acc. dict_set k (g k) acc) ks d)) = set ks \<union> set (dict_keys d)"
  by (induction ks arbitrary: d) (auto simp: keys_dict_set)


section \<open>The smoother\<close>

lemma length_smoothDataPoints: "length (smoothDataPoints dps) = length dps"
  by (simp add: smoothDataPoints_def)

lemma smoothDataPoints_nth:
  assumes "3 \<le> length dps" and "i < length dps"
  shows "smoothDataPoints dps ! i =
           (if i = 0 \<or> i = length dps - 1 then dps ! i
            else smoothPoint (dps ! (i - 1)) (dps ! i) (dps ! (i + 1)))"
  using assms by (simp add: smoothDataPoints_def)

text \<open>
  C4.  A series of fewer than three points is returned as it is; for a series of at
  least three points the output has the same length and its first and last points are the
  first and last input points, every field included.
\<close>

theorem smoothDataPoints_endpoints:
  "(length dps < 3 \<longrightarrow> smoothDataPoints dps = dps) \<and>
   (3 \<le> length dps \<longrightarrow>
      length (smoothDataPoints dps) = length dps \<and>
      smoothDataPoints dps ! 0 = dps ! 0 \<and>
      smoothDataPoints dps ! (length dps - 1) = dps ! (length dps - 1) \<and>
      hd (smoothDataPoints dps) = hd dps \<and>
      last (smoothDataPoints dps) = last dps)"
proof (intro conjI impI)
  assume "length dps < 3"
  then show "smoothDataPoints dps = dps" by (simp add: smoothDataPoints_def)
next
  assume n: "3 \<le> length dps"
  show len: "length (smoothDataPoints dps) = length dps" by (rule length_smoothDataPoints)
  from n have ne: "dps \<noteq> []" "smoothDataPoints dps \<noteq> []"
    using len by auto
  show first: "smoothDataPoints dps ! 0 = dps ! 0"
    using n ne smoothDataPoints_nth [of dps 0] by simp
  show lst: "smoothDataPoints dps ! (length dps - 1) = dps ! (length dps - 1)"
    using n ne smoothDataPoints_nth [of dps "length dps - 1"] by simp
  show "hd (smoothDataPoints dps) = hd dps"
    using first ne by (simp add: hd_conv_nth)
  show "last (smoothDataPoints dps) = last dps"
    using lst ne len by (simp add: last_conv_nth)
qed

theorem smoothDataPoints_endpoints_witness:
  "length [sample_p1, sample_p2] < 3 \<and>
   smoothDataPoints [sample_p1, sample_p2] = [sample_p1, sample_p2] \<and>
   3 \<le> length [sample_p1, sample_p2, sample_p3] \<and>
   hd (smoothDataPoints [sample_p1, sample_p2, sample_p3]) = sample_p1 \<and>
   last (smoothDataPoints [sample_p1, sample_p2, sample_p3]) = sample_p3"
  using smoothDataPoints_endpoints [of "[sample_p1, sample_p2]"]
    smoothDataPoints_endpoints [of "[sample_p1, sample_p2, sample_p3]"]
  by simp


text \<open>
  C5.  In a series of at least three points, the smoothed point at an interior index
  \<open>i\<close> keeps the timestamp, the total pool and the betting velocity of input point
  \<open>i\<close>; its percentages and its momentum have exactly the options of the percentages of
  input point \<open>i\<close>, and for each of them the value
  \<open>0.2 * previous + 0.6 * current + 0.2 * next\<close>, each option on its own (a value that a
  neighbour lacks counts as 0).
\<close>

theorem smoothDataPoints_interior:
  assumes "3 \<le> length dps" and "0 < i" and "i < length dps - 1"
  shows "h_timestamp (smoothDataPoints dps ! i) = h_timestamp (dps ! i) \<and>
         h_totalPool (smoothDataPoints dps ! i) = h_totalPool (dps ! i) \<and>
         h_bettingVelocity (smoothDataPoints dps ! i) = h_bettingVelocity (dps ! i) \<and>
         set (dict_keys (h_percentages (smoothDataPoints dps ! i)))
           = set (dict_keys (h_percentages (dps ! i))) \<and>
         (\<forall>optionId \<in> set (dict_keys (h_percentages (dps ! i))).
            dict_get (h_percentages (smoothDataPoints dps ! i)) optionId =
              Some (num_or (dict_get (h_percentages (dps ! (i - 1))) optionId) 0 * (2 / 10)
                    + num_or (dict_get (h_percentages (dps ! i)) optionId) 0 * (6 / 10)
                    + num_or (dict_get (h_percentages (dps ! (i + 1))) optionId) 0 * (2 / 10)) \<and>
            opt_get (h_momentum (smoothDataPoints dps ! i)) optionId =
              Some (num_or (opt_get (h_momentum (dps ! (i - 1))) optionId) 0 * (2 / 10)
                    + num_or (opt_get (h_momentum (dps ! i)) optionId) 0 * (6 / 10)
                    + num_or (opt_get (h_momentum (dps ! (i + 1))) optionId) 0 * (2 / 10)))"
proof -
  from assms have nth: "smoothDataPoints dps ! i
      = smoothPoint (dps ! (i - 1)) (dps ! i) (dps ! (i + 1))"
    using smoothDataPoints_nth [of dps i] by simp
  have empty: "set (dict_keys ([] :: (string, real) dict)) = {}"
    by (simp add: dict_keys_def)
  show ?thesis
    unfolding nth
    by (simp add: smoothPoint_def Let_def dict_get_fold_set keys_fold_set empty
        opt_get_def [of "Some _"])
qed

theorem smoothDataPoints_interior_witness:
  "3 \<le> length [sample_p1, sample_p2, sample_p3] \<and> (0::nat) < 1 \<and>
   1 < length [sample_p1, sample_p2, sample_p3] - 1 \<and>
   h_timestamp (smoothDataPoints [sample_p1, sample_p2, sample_p3] ! 1) = 3600000 \<and>
   h_totalPool (smoothDataPoints [sample_p1, sample_p2, sample_p3] ! 1) = 100 \<and>
   h_bettingVelocity (smoothDataPoints [sample_p1, sample_p2, sample_p3] ! 1) = Some 1 \<and>
   dict_get (h_percentages (smoothDataPoints [sample_p1, sample_p2, sample_p3] ! 1)) ''A''
     = Some 75 \<and>
   opt_get (h_momentum (smoothDataPoints [sample_p1, sample_p2, sample_p3] ! 1)) ''A''
     = Some 15"
  using smoothDataPoints_interior [of "[sample_p1, sample_p2, sample_p3]" 1]
  by (simp add: sample_p1_def sample_p2_def sample_p3_def dict_get_def dict_keys_def
      opt_get_def num_or_def)


section \<open>Rounding, sums and the history loop of the minute-bucketed variant\<close>

lemma sum_values_sum_list: "sum_values vs = sum_list vs"
proof -
  have "foldl (\<lambda>sum v. sum + v) a vs = a + sum_list vs" for a :: real
    by (induction vs arbitrary: a) simp_all
  then show ?thesis by (simp add: sum_values_def)
qed

lemma toFixed2_error: "\<bar>toFixed2 x - x\<bar> \<le> 1 / 200"
proof -
  have fl: "\<bar>of_int \<lfloor>y + 1 / 2\<rfloor> - y\<bar> \<le> 1 / 2" for y :: real
  proof -
    have "of_int \<lfloor>y + 1 / 2\<rfloor> \<le> y + 1 / 2" by (rule of_int_floor_le)
    moreover have "y + 1 / 2 < of_int \<lfloor>y + 1 / 2\<rfloor> + 1" by linarith
    ultimately show ?thesis unfolding abs_le_iff by linarith
  qed
  show ?thesis
  proof (cases "x < 0")
    case True
    have "\<bar>toFixed2 x - x\<bar> = \<bar>of_int \<lfloor>- x * 100 + 1 / 2\<rfloor> - (- x * 100)\<bar> / 100"
      using True by (simp add: toFixed2_def abs_minus_commute field_simps)
    also have "\<dots> \<le> (1 / 2) / 100"
      using fl [of "- x * 100"] by (simp add: divide_right_mono del: minus_mult_left)
    finally show ?thesis by simp
  next
    case False
    have "\<bar>toFixed2 x - x\<bar> = \<bar>of_int \<lfloor>x * 100 + 1 / 2\<rfloor> - x * 100\<bar> / 100"
      using False by (simp add: toFixed2_def field_simps)
    also have "\<dots> \<le> (1 / 2) / 100"
      using fl [of "x * 100"] by (simp add: divide_right_mono)
    finally show ?thesis by simp
  qed
qed


lemma pctFixed2_no_tie: "\<not> isTie (c / t * 100) \<Longrightarrow> pctFixed2 tieUp c t = toFixed2 (c / t * 100)"
  by (simp add: pctFixed2_def)


lemma pctFixed2_error: "\<bar>pctFixed2 tieUp c t - c / t * 100\<bar> \<le> 1 / 200"
proof (cases "isTie (c / t * 100)")
  case False
  then show ?thesis using toFixed2_error [of "c / t * 100"] by (simp add: pctFixed2_no_tie)
next
  case True
  define x where "x = c / t * 100"
  from True have tie: "x * 100 - of_int \<lfloor>x * 100\<rfloor> = 1 / 2"
    by (simp add: isTie_def x_def)
  have "pctFixed2 tieUp c t = (of_int \<lfloor>x * 100\<rfloor> + 1) / 100 \<or>
        pctFixed2 tieUp c t = of_int \<lfloor>x * 100\<rfloor> / 100"
    using True by (simp add: pctFixed2_def Let_def x_def)
  then have "\<bar>pctFixed2 tieUp c t - x\<bar> \<le> 1 / 200"
    using tie by (auto simp: abs_le_iff field_simps)
  then show ?thesis by (simp add: x_def)
qed

lemma distinct_dict_set:
  "distinct (map fst d) \<Longrightarrow> distinct (map fst (dict_set k v d))"
proof (induction d)
  case Nil
  then show ?case by simp
next
  case (Cons a d)
  have "fst ` set (dict_set k v d) = insert k (fst ` set d)"
    using keys_dict_set [of k v d] by (simp add: dict_keys_def)
  with Cons show ?case by (cases a) auto
qed

lemma dict_set_absent: "k \<notin> fst ` set d \<Longrightarrow> dict_set k v d = d @ [(k, v)]"
  by (induction d) auto

lemma fold_set_distinct:
  "distinct (map fst d) \<Longrightarrow> fst ` set d \<inter> fst ` set p = {} \<Longrightarrow>
   fold (\<lambda>(k, v) acc. dict_set k (g v) acc) d p = p @ map (\<lambda>(k, v). (k, g v)) d"
proof (induction d arbitrary: p)
  case Nil
  then show ?case by simp
next
  case (Cons a d)
  obtain k v where a: "a = (k, v)" by (cases a)
  from Cons.prems a have "k \<notin> fst ` set p" by auto
  then have step: "dict_set k (g v) p = p @ [(k, g v)]" by (rule dict_set_absent)
  have "fst ` set d \<inter> fst ` set (p @ [(k, g v)]) = {}"
    using Cons.prems a by auto
  with Cons.IH [of "p @ [(k, g v)]"] Cons.prems a step show ?case by simp
qed

lemma distinct_addBucket:
  "distinct (map fst c) \<Longrightarrow> distinct (map fst (addBucket pool c))"
  unfolding addBucket_def
  by (induction pool arbitrary: c) (auto simp: distinct_dict_set)

lemma distinct_fold_addBucket:
  "distinct (map fst c) \<Longrightarrow> distinct (map fst (fold (\<lambda>time c. addBucket (f time) c) ts c))"
  by (induction ts arbitrary: c) (auto simp: distinct_addBucket)

lemma distinct_cumulativeAt: "distinct (map fst (cumulativeAt bs i))"
  by (simp add: cumulativeAt_def Let_def distinct_fold_addBucket)


lemma buildHistory_length:
  "length (fst (buildHistory tieUp tm opts reads ts c k)) = length ts"
  by (induction ts arbitrary: c k) (simp_all add: Let_def split_beta)

lemma buildHistory_nth:
  "i < length ts \<Longrightarrow>
   fst (buildHistory tieUp tm opts reads ts c k) ! i =
     bucketPoint tieUp (ts ! i) (fold (\<lambda>time c. addBucket (bucket_of tm time) c) (take (Suc i) ts) c)
       opts (reads (k + i))"
proof (induction ts arbitrary: c k i)
  case Nil
  then show ?case by simp
next
  case (Cons t ts)
  show ?case
  proof (cases i)
    case 0
    then show ?thesis by (simp add: Let_def split_beta)
  next
    case (Suc j)
    with Cons.prems have j: "j < length ts" by simp
    have "fst (buildHistory tieUp tm opts reads (t # ts) c k) ! i
            = fst (buildHistory tieUp tm opts reads ts (addBucket (bucket_of tm t) c) (Suc k)) ! j"
      using Suc by (simp add: Let_def split_beta)
    also have "\<dots> = bucketPoint tieUp (ts ! j)
         (fold (\<lambda>time c. addBucket (bucket_of tm time) c) (take (Suc j) ts)
            (addBucket (bucket_of tm t) c)) opts (reads (Suc k + j))"
      using Cons.IH [OF j] .
    finally show ?thesis using Suc by simp
  qed
qed

lemma historicalData_length:
  "length (historicalData (generateOptimizedHistoricalData tieUp bs opts reads))
     = length (dict_keys (groupBets bs))"
  using buildHistory_length [of tieUp "groupBets bs" opts reads "sort (dict_keys (groupBets bs))" "[]" 0]
  by (simp add: generateOptimizedHistoricalData_def Let_def split_beta)

lemma historicalData_nth:
  assumes "i < length (historicalData (generateOptimizedHistoricalData tieUp bs opts reads))"
  shows "percentages (historicalData (generateOptimizedHistoricalData tieUp bs opts reads) ! i)
           = percentagesOf tieUp (cumulativeAt bs i) opts"
    and "timestamp (historicalData (generateOptimizedHistoricalData tieUp bs opts reads) ! i)
           = sort (dict_keys (groupBets bs)) ! i"
    and "totalPool (historicalData (generateOptimizedHistoricalData tieUp bs opts reads) ! i)
           = num_or (map_option total_pool (reads i)) (sum_values (dict_values (cumulativeAt bs i)))"
proof -
  let ?tm = "groupBets bs"
  let ?ts = "sort (dict_keys ?tm)"
  from assms have i: "i < length ?ts" by (simp add: historicalData_length)
  have len: "length (fst (buildHistory tieUp ?tm opts reads ?ts [] 0)) = length ?ts"
    by (rule buildHistory_length)
  have nth: "historicalData (generateOptimizedHistoricalData tieUp bs opts reads) ! i
      = (fst (buildHistory tieUp ?tm opts reads ?ts [] 0) ! i)
          \<lparr>totalBets := snd (buildHistory tieUp ?tm opts reads ?ts [] 0)\<rparr>"
    using i len by (simp add: generateOptimizedHistoricalData_def Let_def split_beta)
  have pt: "fst (buildHistory tieUp ?tm opts reads ?ts [] 0) ! i
      = bucketPoint tieUp (?ts ! i) (cumulativeAt bs i) opts (reads i)"
    using buildHistory_nth [OF i, of tieUp ?tm opts reads "[]" 0]
    by (simp add: cumulativeAt_def Let_def)
  show "percentages (historicalData (generateOptimizedHistoricalData tieUp bs opts reads) ! i)
           = percentagesOf tieUp (cumulativeAt bs i) opts"
    unfolding nth pt by (simp add: bucketPoint_def)
  show "timestamp (historicalData (generateOptimizedHistoricalData tieUp bs opts reads) ! i)
           = sort (dict_keys (groupBets bs)) ! i"
    unfolding nth pt by (simp add: bucketPoint_def)
  show "totalPool (historicalData (generateOptimizedHistoricalData tieUp bs opts reads) ! i)
           = num_or (map_option total_pool (reads i)) (sum_values (dict_values (cumulativeAt bs i)))"
    unfolding nth pt by (simp add: bucketPoint_def)
qed

lemma fill_options_values:
  "sum_list (map snd (fold (\<lambda>option p. if has_key p (opt_id option) then p
                                          else dict_set (opt_id option) (0::real) p) opts p))
     = sum_list (map snd p)"
proof (induction opts arbitrary: p)
  case Nil
  then show ?case by simp
next
  case (Cons a opts)
  show ?case
  proof (cases "has_key p (opt_id a)")
    case True
    with Cons.IH [of p] show ?thesis by simp
  next
    case False
    then have "dict_set (opt_id a) 0 p = p @ [(opt_id a, 0)]"
      by (simp add: has_key_def dict_set_absent)
    with False Cons.IH [of "p @ [(opt_id a, 0)]"] show ?thesis by simp
  qed
qed

lemma has_key_dict_set: "has_key (dict_set k' v p) k = (k = k' \<or> has_key p k)"
  using keys_dict_set [of k' v p] by (auto simp: has_key_def dict_keys_def)



lemma sum_rounding:
  assumes "\<And>x. \<bar>g x - f x\<bar> \<le> (1 / 200 :: real)"
  shows "\<bar>sum_list (map g xs) - sum_list (map f xs)\<bar> \<le> of_nat (length xs) / 200"
proof (induction xs)
  case Nil
  then show ?case by simp
next
  case (Cons x xs)
  let ?A = "g x - f x"
  let ?B = "sum_list (map g xs) - sum_list (map f xs)"
  have "\<bar>?A + ?B\<bar> \<le> \<bar>?A\<bar> + \<bar>?B\<bar>" by (rule abs_triangle_ineq)
  also have "\<dots> \<le> 1 / 200 + of_nat (length xs) / 200"
    using assms [of x] Cons.IH by (rule add_mono)
  also have "\<dots> = of_nat (length (x # xs)) / 200"
    by (simp add: field_simps)
  finally have "\<bar>?A + ?B\<bar> \<le> of_nat (length (x # xs)) / 200" .
  moreover have "sum_list (map g (x # xs)) - sum_list (map f (x # xs)) = ?A + ?B"
    by simp
  ultimately show ?case by (simp only:)
qed

lemma computed_map:
  assumes "distinct (map fst cum)"
  shows "fold (\<lambda>(optionId, v) p. dict_set optionId (g v) p) cum [] = map (\<lambda>(k, v). (k, g v)) cum"
  using fold_set_distinct [OF assms, of "[]" g] by simp

lemma percentagesOf_sum:
  assumes d: "distinct (map fst cum)" and pos: "0 < sum_values (dict_values cum)"
  shows "\<bar>sum_values (dict_values (percentagesOf tieUp cum opts)) - 100\<bar>
           \<le> of_nat (length cum) / 200"
proof -
  let ?T = "sum_list (map snd cum)"
  have T: "0 < ?T" using pos by (simp add: sum_values_sum_list dict_values_def)
  have "sum_values (dict_values (percentagesOf tieUp cum opts))
          = sum_list (map snd (map (\<lambda>(k, v). (k, pctFixed2 tieUp v ?T)) cum))"
    using T
    by (simp add: percentagesOf_def Let_def sum_values_sum_list dict_values_def
        fill_options_values computed_map [OF d])
  also have "\<dots> = sum_list (map (\<lambda>x. pctFixed2 tieUp (snd x) ?T) cum)"
    by (simp add: comp_def split_beta)
  finally have eq: "sum_values (dict_values (percentagesOf tieUp cum opts))
      = sum_list (map (\<lambda>x. pctFixed2 tieUp (snd x) ?T) cum)" .
  have lin: "sum_list (map (\<lambda>x. snd x / c * 100) xs) = sum_list (map snd xs) / c * 100"
    for c :: real and xs :: "(string \<times> real) list"
    by (induction xs) (simp_all add: add_divide_distrib distrib_right)
  have "sum_list (map (\<lambda>x. snd x / ?T * 100) cum) = sum_list (map snd cum) / ?T * 100"
    by (rule lin)
  also have "\<dots> = 100" using T by simp
  finally have exact: "sum_list (map (\<lambda>x. snd x / ?T * 100) cum) = 100" .
  show ?thesis
    using sum_rounding [of "\<lambda>x. pctFixed2 tieUp (snd x) ?T" "\<lambda>x. snd x / ?T * 100" cum,
            OF pctFixed2_error]
    unfolding eq exact .
qed







text \<open>
  C3.  In the series of the minute-bucketed variant, at a point whose running total is
  positive, the sum of the percentages differs from 100 by at most 0.005 for each option
  that has received a bet so far; it lies within 0.1 of 100 when at most 20 options have.
\<close>

theorem percentage_sum_near_100:
  assumes "i < length (historicalData (generateOptimizedHistoricalData tieUp bs opts reads))"
    and "0 < sum_values (dict_values (cumulativeAt bs i))"
  shows "\<bar>sum_values (dict_values
             (percentages (historicalData (generateOptimizedHistoricalData tieUp bs opts reads) ! i)))
           - 100\<bar> \<le> of_nat (length (cumulativeAt bs i)) / 200 \<and>
         (length (cumulativeAt bs i) \<le> 20 \<longrightarrow>
          \<bar>sum_values (dict_values
             (percentages (historicalData (generateOptimizedHistoricalData tieUp bs opts reads) ! i)))
           - 100\<bar> \<le> 1 / 10)"
proof -
  let ?S = "sum_values (dict_values
             (percentages (historicalData (generateOptimizedHistoricalData tieUp bs opts reads) ! i)))"
  have S: "\<bar>?S - 100\<bar> \<le> of_nat (length (cumulativeAt bs i)) / 200"
    using percentagesOf_sum [OF distinct_cumulativeAt assms(2), of tieUp opts]
    by (simp add: historicalData_nth(1) [OF assms(1)])
  moreover have "\<bar>?S - 100\<bar> \<le> 1 / 10" if "length (cumulativeAt bs i) \<le> 20"
  proof -
    from that have "real (length (cumulativeAt bs i)) / 200 \<le> 1 / 10" by simp
    with S show ?thesis by linarith
  qed
  ultimately show ?thesis by blast
qed

lemmas eval_defs = noEventRead_def doubleTies_def pctFixed2_def isTie_def groupBets_def Let_def timeKey_def bucket_of_def dict_get_def dict_keys_def
  dict_values_def num_or_def bucketPoint_def percentagesOf_def addBucket_def sum_values_def
  has_key_def toFixed2_def sampleBet_def sampleOption_def

theorem percentage_sum_near_100_witness:
  "1 < length (historicalData
                (generateOptimizedHistoricalData doubleTies scenarioA scenarioA_options noEventRead)) \<and>
   0 < sum_values (dict_values (cumulativeAt scenarioA 1)) \<and>
   length (cumulativeAt scenarioA 1) \<le> 20 \<and>
   \<bar>sum_values (dict_values
        (percentages (historicalData
           (generateOptimizedHistoricalData doubleTies scenarioA scenarioA_options noEventRead) ! 1)))
      - 100\<bar> \<le> 1 / 10"
proof -
  have len: "1 < length (historicalData
                (generateOptimizedHistoricalData doubleTies scenarioA scenarioA_options noEventRead))"
    by (simp add: historicalData_length scenarioA_def eval_defs)
  have cum: "cumulativeAt scenarioA 1 = [(''A'', 100), (''B'', 300)]"
    by (simp add: cumulativeAt_def scenarioA_def eval_defs)
  have pos: "0 < sum_values (dict_values (cumulativeAt scenarioA 1))"
    unfolding cum by (simp add: eval_defs)
  have few: "length (cumulativeAt scenarioA 1) \<le> 20"
    unfolding cum by simp
  show ?thesis
    using percentage_sum_near_100 [OF len pos] len pos few by blast
qed

text \<open>
  With 31 options and one bet of 1 on each, every share is 3.2258..., which is rounded
  to 3.23, and the 31 rounded shares add up to 100.13.
\<close>

theorem percentage_sum_counterexample:
  "totalPool (hd (historicalData
                   (generateOptimizedHistoricalData doubleTies manyOptionBets [] noEventRead))) = 31 \<and>
   sum_values (dict_values
     (percentages (hd (historicalData
                        (generateOptimizedHistoricalData doubleTies manyOptionBets [] noEventRead)))))
     = 10013 / 100 \<and>
   \<not> \<bar>sum_values (dict_values
     (percentages (hd (historicalData
                        (generateOptimizedHistoricalData doubleTies manyOptionBets [] noEventRead)))))
       - 100\<bar> \<le> 1 / 10"
  by (simp add: generateOptimizedHistoricalData_def manyOptionBets_def eval_defs)


section \<open>What the running totals are\<close>



















section \<open>The percentage rule of both variants\<close>





text \<open>The percentage that one pass of the hourly loop gives an option.\<close>

lemma realStep_append: "\<exists>p. realStep allBets opts now i dps = dps @ [p]"
  by (simp add: realStep_def Let_def)


lemma fold_realStep_length:
  "length (fold (\<lambda>i d. realStep allBets opts now i d) is dps) = length dps + length is"
proof (induction "is" arbitrary: dps)
  case Nil
  then show ?case by simp
next
  case (Cons i "is")
  obtain p where "realStep allBets opts now i dps = dps @ [p]"
    using realStep_append by blast
  then show ?case using Cons.IH [of "dps @ [p]"] by simp
qed


lemma realDataPoints_length: "length (realDataPoints allBets opts now) = 24"
  by (simp add: realDataPoints_def fold_realStep_length)






section \<open>The edge function against the running totals\<close>

text \<open>
  C1.  On Scenario A the edge function computes the second bucket from that bucket's own
  increments: option B gets 100 and option A is missing, where the running totals give
  A 25 and B 75, as the minute-bucketed service computes from the same ledger.
\<close>

theorem edge_not_cumulative:
  "edgeHandler doubleTies scenarioA_store (Some ''e1'') =
     Ok [\<lparr> edge_timestamp = 0, edge_percentages = [(''A'', Some 100)],
            edge_totalPool = 400, edge_participantCount = 2 \<rparr>,
         \<lparr> edge_timestamp = 60, edge_percentages = [(''B'', Some 100)],
            edge_totalPool = 400, edge_participantCount = 2 \<rparr>]
        [\<lparr> meta_id = ''A'', meta_label = ''A'', meta_color = ''#16a34a'' \<rparr>,
         \<lparr> meta_id = ''B'', meta_label = ''B'', meta_color = ''#dc2626'' \<rparr>] \<and>
   map percentages (historicalData
      (generateOptimizedHistoricalData doubleTies scenarioA scenarioA_options noEventRead))
     = [[(''A'', 100), (''B'', 0)], [(''A'', 25), (''B'', 75)]]"
  by (simp add: edgeHandler_def scenarioA_store_def read_table_def select_event_def single_def
      sampleEvent_def edgeHistoricalData_def edgePoint_def scenarioA_def scenarioA_options_def
      generateOptimizedHistoricalData_def optionColors_def eval_defs)


section \<open>The last major shift\<close>

lemma shiftScan_None:
  "shiftScan hasShift hist n = None \<longleftrightarrow>
     (\<forall>i. 0 < i \<and> i \<le> n \<longrightarrow> \<not> hasShift (hist ! (i - 1)) (hist ! i))"
proof (induction n)
  case 0
  then show ?case by simp
next
  case (Suc n)
  have "(\<forall>i. 0 < i \<and> i \<le> Suc n \<longrightarrow> \<not> hasShift (hist ! (i - 1)) (hist ! i))
      \<longleftrightarrow> \<not> hasShift (hist ! n) (hist ! Suc n) \<and>
          (\<forall>i. 0 < i \<and> i \<le> n \<longrightarrow> \<not> hasShift (hist ! (i - 1)) (hist ! i))"
    (is "?L \<longleftrightarrow> ?R")
  proof
    assume l: ?L
    then have "\<not> hasShift (hist ! (Suc n - 1)) (hist ! Suc n)" by blast
    with l show ?R by simp
  next
    assume r: ?R
    show ?L
    proof (intro allI impI)
      fix i assume i: "0 < i \<and> i \<le> Suc n"
      show "\<not> hasShift (hist ! (i - 1)) (hist ! i)"
      proof (cases "i = Suc n")
        case True
        with r show ?thesis by simp
      next
        case False
        with i have "0 < i \<and> i \<le> n" by simp
        with r show ?thesis by blast
      qed
    qed
  qed
  with Suc show ?case by simp
qed

lemma shiftScan_Some:
  assumes "0 < i" and "i \<le> n" and "hasShift (hist ! (i - 1)) (hist ! i)"
    and "\<forall>j. i < j \<and> j \<le> n \<longrightarrow> \<not> hasShift (hist ! (j - 1)) (hist ! j)"
  shows "shiftScan hasShift hist n = Some (hist ! i)"
  using assms
proof (induction n)
  case 0
  then show ?case by simp
next
  case (Suc n)
  show ?case
  proof (cases "i = Suc n")
    case True
    with Suc.prems show ?thesis by simp
  next
    case False
    with Suc.prems have le: "i \<le> n" and lt: "i < Suc n" by simp_all
    from Suc.prems(4) lt have no: "\<not> hasShift (hist ! n) (hist ! Suc n)"
      by (metis diff_Suc_1 le_refl)
    have "\<forall>j. i < j \<and> j \<le> n \<longrightarrow> \<not> hasShift (hist ! (j - 1)) (hist ! j)"
      using Suc.prems(4) by simp
    with Suc.IH [OF Suc.prems(1) le Suc.prems(3)] no show ?thesis by simp
  qed
qed


lemma shiftScan_None_length:
  "shiftScan hasShift hist (length hist - 1) = None \<longleftrightarrow>
     (\<forall>i. 0 < i \<and> i < length hist \<longrightarrow> \<not> hasShift (hist ! (i - 1)) (hist ! i))"
proof -
  have "(i \<le> length hist - 1 \<and> 0 < i) = (i < length hist \<and> 0 < i)" for i
    by (cases hist) auto
  then show ?thesis
    unfolding shiftScan_None by (metis (no_types, lifting))
qed

lemma shiftScan_never: "shiftScan (\<lambda>previous current. False) hist n = None"
  by (simp add: shiftScan_None)

lemma insights_of_options:
  "lastMajorShift (calculateEnhancedInsights hours (first # others) hist bs)
     = lastMajorShiftOf (opt_id (leadingOf first others)) hist"
  "trend (calculateEnhancedInsights hours (first # others) hist bs)
     = trendOf (opt_id (leadingOf first others)) hist"
  by (simp_all add: calculateEnhancedInsights_def Let_def split_beta)

lemma hour_insights_shift:
  "hi_lastMajorShift (generateEventInsights hours hist opts) = hourLastMajorShift opts hist"
  by (auto simp: generateEventInsights_def Let_def hourLastMajorShift_def shiftScan_never)

text \<open>
  C6.  Minute-bucketed variant: \<open>lastMajorShift\<close> is absent exactly when no two
  consecutive points differ by more than 5 in the percentage of the leading option, and
  otherwise it is the timestamp of the later point of the most recent such pair.
  Hour-bucketed variant: the same with a difference of more than 10 in the percentage of
  any listed option.
\<close>

theorem lastMajorShift_rule:
  "(lastMajorShift (calculateEnhancedInsights hours (first # others) hist bs) = None \<longleftrightarrow>
      (\<forall>i. 0 < i \<and> i < length hist \<longrightarrow>
         \<not> 5 < \<bar>pctOf (opt_id (leadingOf first others)) (hist ! i)
                 - pctOf (opt_id (leadingOf first others)) (hist ! (i - 1))\<bar>)) \<and>
   (0 < i \<and> i < length hist \<and>
    5 < \<bar>pctOf (opt_id (leadingOf first others)) (hist ! i)
         - pctOf (opt_id (leadingOf first others)) (hist ! (i - 1))\<bar> \<and>
    (\<forall>j. i < j \<and> j < length hist \<longrightarrow>
       \<not> 5 < \<bar>pctOf (opt_id (leadingOf first others)) (hist ! j)
               - pctOf (opt_id (leadingOf first others)) (hist ! (j - 1))\<bar>) \<longrightarrow>
    lastMajorShift (calculateEnhancedInsights hours (first # others) hist bs)
      = Some (timestamp (hist ! i))) \<and>
   (hi_lastMajorShift (generateEventInsights hours hhist hopts) = None \<longleftrightarrow>
      (\<forall>i. 0 < i \<and> i < length hhist \<longrightarrow>
         \<not> (\<exists>option \<in> set hopts.
               10 < \<bar>hpct (hid option) (hhist ! i) - hpct (hid option) (hhist ! (i - 1))\<bar>))) \<and>
   (0 < k \<and> k < length hhist \<and>
    (\<exists>option \<in> set hopts.
       10 < \<bar>hpct (hid option) (hhist ! k) - hpct (hid option) (hhist ! (k - 1))\<bar>) \<and>
    (\<forall>j. k < j \<and> j < length hhist \<longrightarrow>
       \<not> (\<exists>option \<in> set hopts.
             10 < \<bar>hpct (hid option) (hhist ! j) - hpct (hid option) (hhist ! (j - 1))\<bar>)) \<longrightarrow>
    hi_lastMajorShift (generateEventInsights hours hhist hopts) = Some (h_timestamp (hhist ! k)))"
proof -
  let ?l = "opt_id (leadingOf first others)"
  let ?m = "\<lambda>previous current. 5 < \<bar>pctOf ?l current - pctOf ?l previous\<bar>"
  let ?h = "\<lambda>previous current.
              list_ex (\<lambda>option. 10 < \<bar>hpct (hid option) current - hpct (hid option) previous\<bar>) hopts"
  have a: "lastMajorShift (calculateEnhancedInsights hours (first # others) hist bs) = None \<longleftrightarrow>
      (\<forall>i. 0 < i \<and> i < length hist \<longrightarrow> \<not> ?m (hist ! (i - 1)) (hist ! i))"
    using shiftScan_None_length [of ?m hist]
    by (simp add: insights_of_options lastMajorShiftOf_def)
  have b: "lastMajorShift (calculateEnhancedInsights hours (first # others) hist bs)
      = Some (timestamp (hist ! i))"
    if "0 < i \<and> i < length hist \<and> ?m (hist ! (i - 1)) (hist ! i) \<and>
        (\<forall>j. i < j \<and> j < length hist \<longrightarrow> \<not> ?m (hist ! (j - 1)) (hist ! j))"
  proof -
    from that have "shiftScan ?m hist (length hist - 1) = Some (hist ! i)"
      by (intro shiftScan_Some) auto
    then show ?thesis by (simp add: insights_of_options lastMajorShiftOf_def)
  qed
  have c: "hi_lastMajorShift (generateEventInsights hours hhist hopts) = None \<longleftrightarrow>
      (\<forall>i. 0 < i \<and> i < length hhist \<longrightarrow> \<not> ?h (hhist ! (i - 1)) (hhist ! i))"
    using shiftScan_None_length [of ?h hhist]
    by (simp add: hour_insights_shift hourLastMajorShift_def)
  have d: "hi_lastMajorShift (generateEventInsights hours hhist hopts)
      = Some (h_timestamp (hhist ! k))"
    if "0 < k \<and> k < length hhist \<and> ?h (hhist ! (k - 1)) (hhist ! k) \<and>
        (\<forall>j. k < j \<and> j < length hhist \<longrightarrow> \<not> ?h (hhist ! (j - 1)) (hhist ! j))"
  proof -
    from that have "shiftScan ?h hhist (length hhist - 1) = Some (hhist ! k)"
      by (intro shiftScan_Some) auto
    then show ?thesis by (simp add: hour_insights_shift hourLastMajorShift_def)
  qed
  show ?thesis
    using a b c d unfolding list_ex_iff by blast
qed


lemma scenarioA_history:
  "historicalData (generateOptimizedHistoricalData doubleTies scenarioA scenarioA_options noEventRead) =
     [\<lparr> timestamp = 0, percentages = [(''A'', 100), (''B'', 0)], totalPool = 100,
        participantCount = 0, totalBets = [(''A'', 100), (''B'', 300)], velocity = 0 \<rparr>,
      \<lparr> timestamp = 60, percentages = [(''A'', 25), (''B'', 75)], totalPool = 400,
        participantCount = 0, totalBets = [(''A'', 100), (''B'', 300)], velocity = 0 \<rparr>]"
  by (simp add: generateOptimizedHistoricalData_def scenarioA_def scenarioA_options_def eval_defs)

theorem lastMajorShift_rule_witness:
  "(0::nat) < 1 \<and>
   1 < length (historicalData
                (generateOptimizedHistoricalData doubleTies scenarioA scenarioA_options noEventRead)) \<and>
   leadingOf (sampleOption ''A'' 100) [sampleOption ''B'' 300] = sampleOption ''B'' 300 \<and>
   lastMajorShift
     (calculateEnhancedInsights utcHours [sampleOption ''A'' 100, sampleOption ''B'' 300]
        (historicalData (generateOptimizedHistoricalData doubleTies scenarioA scenarioA_options noEventRead))
        scenarioA) = Some 60 \<and>
   (0::nat) < 2 \<and> 2 < length [sample_p1, sample_p2, sample_p3] \<and>
   hi_lastMajorShift (generateEventInsights utcHours [sample_p1, sample_p2, sample_p3] thirdsOptions)
     = Some 7200000"
proof -
  let ?H = "historicalData
              (generateOptimizedHistoricalData doubleTies scenarioA scenarioA_options noEventRead)"
  let ?first = "sampleOption ''A'' 100"
  let ?others = "[sampleOption ''B'' 300]"
  let ?l = "opt_id (leadingOf ?first ?others)"
  have lead: "leadingOf ?first ?others = sampleOption ''B'' 300"
    by (simp add: leadingOf_def sampleOption_def)
  have lead_id: "?l = ''B''"
    by (simp add: lead) (simp add: sampleOption_def)
  have h1: "0 < (1::nat) \<and> 1 < length ?H \<and>
            5 < \<bar>pctOf ?l (?H ! 1) - pctOf ?l (?H ! (1 - 1))\<bar> \<and>
            (\<forall>j. 1 < j \<and> j < length ?H \<longrightarrow>
               \<not> 5 < \<bar>pctOf ?l (?H ! j) - pctOf ?l (?H ! (j - 1))\<bar>)"
    by (simp add: lead_id scenarioA_history pctOf_def num_or_def dict_get_def)
  have a: "lastMajorShift (calculateEnhancedInsights utcHours (?first # ?others) ?H scenarioA)
             = Some 60"
    using lastMajorShift_rule [where hours = utcHours and first = ?first and others = ?others
                                   and hist = ?H and bs = scenarioA and i = 1,
            THEN conjunct2, THEN conjunct1, THEN mp, OF h1]
    by (simp add: scenarioA_history)
  let ?S = "[sample_p1, sample_p2, sample_p3]"
  have h2: "0 < (2::nat) \<and> 2 < length ?S \<and>
     (\<exists>option \<in> set thirdsOptions.
        10 < \<bar>hpct (hid option) (?S ! 2) - hpct (hid option) (?S ! (2 - 1))\<bar>) \<and>
     (\<forall>j. 2 < j \<and> j < length ?S \<longrightarrow>
        \<not> (\<exists>option \<in> set thirdsOptions.
              10 < \<bar>hpct (hid option) (?S ! j) - hpct (hid option) (?S ! (j - 1))\<bar>))"
  proof (intro conjI allI impI)
    show "0 < (2::nat)" by simp
    show "2 < length ?S" by simp
    show "\<exists>option \<in> set thirdsOptions.
            10 < \<bar>hpct (hid option) (?S ! 2) - hpct (hid option) (?S ! (2 - 1))\<bar>"
      by (simp add: thirdsOptions_def sampleHourOption_def sampleOption_def hid_def hpct_def
          sample_p2_def sample_p3_def num_or_def dict_get_def)
  next
    fix j assume "2 < j \<and> j < length ?S"
    then have "2 < j" and "j < 3" by simp_all
    then have False by linarith
    then show "\<not> (\<exists>option \<in> set thirdsOptions.
              10 < \<bar>hpct (hid option) (?S ! j) - hpct (hid option) (?S ! (j - 1))\<bar>)" ..
  qed
  have b: "hi_lastMajorShift (generateEventInsights utcHours ?S thirdsOptions) = Some 7200000"
    using lastMajorShift_rule [where hours = utcHours and hhist = ?S and hopts = thirdsOptions and k = 2,
            THEN conjunct2, THEN conjunct2, THEN conjunct2, THEN mp, OF h2]
    by (simp add: sample_p3_def)
  show ?thesis
    using a b lead h1 by simp
qed

text \<open>
  On the ledger \<open>shiftBets\<close> the share of option B falls from 30 to 21.43 and that of C
  rises from 20 to 28.57 between the two points, while the leading option A stays at 50:
  the minute-bucketed insights report no major shift.
\<close>

theorem lastMajorShift_counterexample:
  "map percentages (historicalData
      (generateOptimizedHistoricalData doubleTies shiftBets shiftOptions noEventRead))
     = [[(''A'', 50), (''B'', 30), (''C'', 20)],
        [(''A'', 50), (''B'', 2143 / 100), (''C'', 2857 / 100)]] \<and>
   5 < \<bar>pctOf ''B'' (historicalData
                        (generateOptimizedHistoricalData doubleTies shiftBets shiftOptions noEventRead) ! 1)
        - pctOf ''B'' (historicalData
                        (generateOptimizedHistoricalData doubleTies shiftBets shiftOptions noEventRead) ! 0)\<bar> \<and>
   lastMajorShift
     (calculateEnhancedInsights utcHours shiftOptions
        (historicalData (generateOptimizedHistoricalData doubleTies shiftBets shiftOptions noEventRead))
        shiftBets) = None"
proof -
  have H: "historicalData (generateOptimizedHistoricalData doubleTies shiftBets shiftOptions noEventRead) =
     [\<lparr> timestamp = 0, percentages = [(''A'', 50), (''B'', 30), (''C'', 20)], totalPool = 100,
        participantCount = 0, totalBets = [(''A'', 70), (''B'', 30), (''C'', 40)], velocity = 0 \<rparr>,
      \<lparr> timestamp = 1, percentages = [(''A'', 50), (''B'', 2143 / 100), (''C'', 2857 / 100)],
        totalPool = 140, participantCount = 0,
        totalBets = [(''A'', 70), (''B'', 30), (''C'', 40)], velocity = 0 \<rparr>]"
    by (simp add: generateOptimizedHistoricalData_def shiftBets_def shiftOptions_def eval_defs)
  have lead: "opt_id (leadingOf (sampleOption ''A'' 70)
                         [sampleOption ''B'' 30, sampleOption ''C'' 40]) = ''A''"
    by (simp add: leadingOf_def sampleOption_def)
  show ?thesis
    unfolding H
    by (simp add: shiftOptions_def insights_of_options lead lastMajorShiftOf_def pctOf_def
        num_or_def dict_get_def)
qed


section \<open>The trend\<close>

lemma trendOf_short: "length hist < 3 \<Longrightarrow> trendOf leadingId hist = Stable"
  by (simp add: trendOf_def)

lemma trendOf_long:
  assumes "3 \<le> length hist"
  shows "trendOf leadingId hist =
           (if 2 < pctOf leadingId (hist ! (length hist - 1))
                     - pctOf leadingId (hist ! (length hist - 3)) then Rising
            else if pctOf leadingId (hist ! (length hist - 1))
                     - pctOf leadingId (hist ! (length hist - 3)) < - 2 then Falling
            else Stable)"
proof -
  let ?recent = "drop (length hist - 3) hist"
  from assms have ne: "?recent \<noteq> []" "hist \<noteq> []" by auto
  have first: "hd (map (pctOf leadingId) ?recent) = pctOf leadingId (hist ! (length hist - 3))"
    using assms ne by (simp add: hd_map hd_drop_conv_nth)
  have "last ?recent = last hist"
    using assms by (intro last_drop) simp
  also have "\<dots> = hist ! (length hist - 1)"
    using ne(2) by (rule last_conv_nth)
  finally have "last ?recent = hist ! (length hist - 1)" .
  then have lst: "last (map (pctOf leadingId) ?recent)
      = pctOf leadingId (hist ! (length hist - 1))"
    using last_map [OF ne(1), of "pctOf leadingId"] by (simp only:)
  show ?thesis
    using assms unfolding trendOf_def Let_def first lst by simp
qed

text \<open>
  C7.  The trend compares the percentage of the leading option at the last point with
  its percentage two points earlier: Rising for a change above +2, Falling for a change
  below -2, Stable otherwise.  With fewer than three points, or without options, the
  trend is Stable.
\<close>

theorem trend_rule:
  "trend (calculateEnhancedInsights hours [] hist bs) = Stable \<and>
   (length hist < 3 \<longrightarrow>
      trend (calculateEnhancedInsights hours (first # others) hist bs) = Stable) \<and>
   (3 \<le> length hist \<longrightarrow>
      trend (calculateEnhancedInsights hours (first # others) hist bs) =
        (if 2 < pctOf (opt_id (leadingOf first others)) (hist ! (length hist - 1))
                  - pctOf (opt_id (leadingOf first others)) (hist ! (length hist - 3))
         then Rising
         else if pctOf (opt_id (leadingOf first others)) (hist ! (length hist - 1))
                  - pctOf (opt_id (leadingOf first others)) (hist ! (length hist - 3)) < - 2
         then Falling
         else Stable))"
proof (intro conjI impI)
  show "trend (calculateEnhancedInsights hours [] hist bs) = Stable"
    by (simp add: calculateEnhancedInsights_def)
next
  assume "length hist < 3"
  then show "trend (calculateEnhancedInsights hours (first # others) hist bs) = Stable"
    by (simp add: insights_of_options trendOf_short)
next
  assume "3 \<le> length hist"
  then show "trend (calculateEnhancedInsights hours (first # others) hist bs) =
        (if 2 < pctOf (opt_id (leadingOf first others)) (hist ! (length hist - 1))
                  - pctOf (opt_id (leadingOf first others)) (hist ! (length hist - 3))
         then Rising
         else if pctOf (opt_id (leadingOf first others)) (hist ! (length hist - 1))
                  - pctOf (opt_id (leadingOf first others)) (hist ! (length hist - 3)) < - 2
         then Falling
         else Stable)"
    unfolding insights_of_options by (rule trendOf_long)
qed

lemma rising_history:
  "historicalData (generateOptimizedHistoricalData doubleTies risingBets risingOptions noEventRead) =
     [\<lparr> timestamp = 0, percentages = [(''B'', 100), (''A'', 0)], totalPool = 10,
        participantCount = 0, totalBets = [(''B'', 10), (''A'', 100)], velocity = 0 \<rparr>,
      \<lparr> timestamp = 1, percentages = [(''B'', 909 / 100), (''A'', 9091 / 100)],
        totalPool = 110, participantCount = 0,
        totalBets = [(''B'', 10), (''A'', 100)], velocity = 0 \<rparr>]"
  by (simp add: generateOptimizedHistoricalData_def risingBets_def risingOptions_def eval_defs)

lemma rising3_history:
  "historicalData (generateOptimizedHistoricalData doubleTies risingBets3 risingOptions noEventRead) =
     [\<lparr> timestamp = 0, percentages = [(''B'', 100), (''A'', 0)], totalPool = 10,
        participantCount = 0, totalBets = [(''B'', 10), (''A'', 200)], velocity = 0 \<rparr>,
      \<lparr> timestamp = 1, percentages = [(''B'', 909 / 100), (''A'', 9091 / 100)],
        totalPool = 110, participantCount = 0,
        totalBets = [(''B'', 10), (''A'', 200)], velocity = 0 \<rparr>,
      \<lparr> timestamp = 2, percentages = [(''B'', 476 / 100), (''A'', 9524 / 100)],
        totalPool = 210, participantCount = 0,
        totalBets = [(''B'', 10), (''A'', 200)], velocity = 0 \<rparr>]"
  by (simp add: generateOptimizedHistoricalData_def risingBets3_def risingOptions_def eval_defs)

lemma rising_lead:
  "opt_id (leadingOf (sampleOption ''A'' 100) [sampleOption ''B'' 10]) = ''A''"
  by (simp add: leadingOf_def sampleOption_def)

theorem trend_rule_witness:
  "length (historicalData
            (generateOptimizedHistoricalData doubleTies risingBets risingOptions noEventRead)) < 3 \<and>
   trend (calculateEnhancedInsights utcHours [sampleOption ''A'' 100, sampleOption ''B'' 10]
            (historicalData (generateOptimizedHistoricalData doubleTies risingBets risingOptions noEventRead))
            risingBets) = Stable \<and>
   3 \<le> length (historicalData
                 (generateOptimizedHistoricalData doubleTies risingBets3 risingOptions noEventRead)) \<and>
   trend (calculateEnhancedInsights utcHours [sampleOption ''A'' 100, sampleOption ''B'' 10]
            (historicalData (generateOptimizedHistoricalData doubleTies risingBets3 risingOptions noEventRead))
            risingBets3) = Rising"
proof -
  let ?H2 = "historicalData (generateOptimizedHistoricalData doubleTies risingBets risingOptions noEventRead)"
  let ?H3 = "historicalData (generateOptimizedHistoricalData doubleTies risingBets3 risingOptions noEventRead)"
  have s: "length ?H2 < 3" by (simp add: rising_history)
  have l: "3 \<le> length ?H3" by (simp add: rising3_history)
  have a: "trend (calculateEnhancedInsights utcHours
                    [sampleOption ''A'' 100, sampleOption ''B'' 10] ?H2 risingBets) = Stable"
    using trend_rule [where hist = ?H2, THEN conjunct2, THEN conjunct1, THEN mp, OF s] .
  have b: "trend (calculateEnhancedInsights utcHours
                    [sampleOption ''A'' 100, sampleOption ''B'' 10] ?H3 risingBets3) = Rising"
    using trend_rule [where hist = ?H3 and first = "sampleOption ''A'' 100"
                        and others = "[sampleOption ''B'' 10]" and hours = utcHours
                        and bs = risingBets3,
                      THEN conjunct2, THEN conjunct2, THEN mp, OF l]
    by (simp add: rising_lead rising3_history pctOf_def num_or_def dict_get_def)
  show ?thesis using s l a b by blast
qed

text \<open>
  With two points the leading option A goes from 0 to 90.91, a change of more than +2
  over the last two points, and the trend is Stable.
\<close>

theorem trend_counterexample:
  "length (historicalData
            (generateOptimizedHistoricalData doubleTies risingBets risingOptions noEventRead)) = 2 \<and>
   leadingOption (calculateEnhancedInsights utcHours risingOptions
            (historicalData (generateOptimizedHistoricalData doubleTies risingBets risingOptions noEventRead))
            risingBets) = ''A'' \<and>
   2 < pctOf ''A'' (historicalData
                     (generateOptimizedHistoricalData doubleTies risingBets risingOptions noEventRead) ! 1)
       - pctOf ''A'' (historicalData
                     (generateOptimizedHistoricalData doubleTies risingBets risingOptions noEventRead) ! 0) \<and>
   trend (calculateEnhancedInsights utcHours risingOptions
            (historicalData (generateOptimizedHistoricalData doubleTies risingBets risingOptions noEventRead))
            risingBets) = Stable"
proof -
  have lead: "leadingOf (sampleOption ''A'' 100) [sampleOption ''B'' 10] = sampleOption ''A'' 100"
    by (simp add: leadingOf_def sampleOption_def)
  have "leadingOption (calculateEnhancedInsights utcHours risingOptions
            (historicalData (generateOptimizedHistoricalData doubleTies risingBets risingOptions noEventRead))
            risingBets) = ''A''"
    by (simp add: calculateEnhancedInsights_def risingOptions_def Let_def split_beta lead)
       (simp add: sampleOption_def)
  then show ?thesis
    unfolding rising_history
    by (simp add: risingOptions_def insights_of_options trendOf_def pctOf_def num_or_def
        dict_get_def)
qed


section \<open>Failures of the facade\<close>

lemma select_event_unknown:
  assumes "\<forall>e \<in> set (events st). ev_id e \<noteq> eventId"
  shows "select_event st eventId =
           (if Events \<in> set (unavailable st) then Inl (Unavailable Events) else Inl NoSingleRow)"
proof -
  from assms have "filter (\<lambda>e. ev_id e = eventId) (events st) = []"
    by (simp add: filter_empty_conv)
  then show ?thesis by (simp add: select_event_def single_def read_table_def)
qed

text \<open>
  C8.  For an event id that no event row has, both variants of \<open>getEventAnalytics\<close>
  fail: the hour-bucketed one with the error of the event read, the minute-bucketed one
  with "Event not found: ..." unless the read of the bets, which it makes first, fails
  ("Bets error: ...").  For an event that exists and has no option, the hour-bucketed
  variant fails with "No betting options found for this event" when the reads of the
  event and of the options succeed; the minute-bucketed variant, when its three reads
  succeed, returns a result: no options, no current percentages, the history built from
  the bets of the event, the stored pool, and the insights "No options available".
\<close>

theorem facade_failures:
  "((\<forall>e \<in> set (events st). ev_id e \<noteq> eventId) \<longrightarrow>
      getEventAnalytics tieUp hours st eventId =
        (if Bets \<in> set (unavailable st) then Inl (BetsError (Unavailable Bets))
         else if Events \<in> set (unavailable st) then Inl (EventNotFound (Unavailable Events))
         else Inl (EventNotFound NoSingleRow)) \<and>
      hourGetEventAnalytics rnd hours now st eventId =
        (if Events \<in> set (unavailable st) then Inl (Rethrown (Unavailable Events))
         else Inl (Rethrown NoSingleRow))) \<and>
   (filter (\<lambda>e. ev_id e = eventId) (events st) = [event] \<and>
    (\<forall>opt \<in> set (bet_options st). opt_event_id opt \<noteq> eventId) \<and>
    Events \<notin> set (unavailable st) \<and> Bet_options \<notin> set (unavailable st) \<longrightarrow>
      hourGetEventAnalytics rnd hours now st eventId = Inl NoBettingOptions \<and>
      (Bets \<notin> set (unavailable st) \<longrightarrow>
         getEventAnalytics tieUp hours st eventId =
           Inr \<lparr> ea_event = event, ea_options = [], ea_currentPercentages = [],
                 ea_historicalData =
                   historicalData
                     (generateOptimizedHistoricalData tieUp
                        (sort_key placed_at (filter (\<lambda>b. bet_event_id b = eventId) (bets st)))
                        [] (\<lambda>k. Some event)),
                 ea_totalPool = total_pool event,
                 ea_insights =
                   \<lparr> leadingOption = ''No options available'', volatility = Low,
                     trend = Stable, peakBettingHour = 0, averageVelocity = 0,
                     totalBettingVelocity = 0, volatilityScore = 0,
                     trendingOption = ''No options available'',
                     lastMajorShift = None \<rparr> \<rparr>))"
proof (intro conjI impI)
  assume u: "\<forall>e \<in> set (events st). ev_id e \<noteq> eventId"
  show "getEventAnalytics tieUp hours st eventId =
        (if Bets \<in> set (unavailable st) then Inl (BetsError (Unavailable Bets))
         else if Events \<in> set (unavailable st) then Inl (EventNotFound (Unavailable Events))
         else Inl (EventNotFound NoSingleRow))"
    by (simp add: getEventAnalytics_def select_event_unknown [OF u] read_table_def)
  show "hourGetEventAnalytics rnd hours now st eventId =
        (if Events \<in> set (unavailable st) then Inl (Rethrown (Unavailable Events))
         else Inl (Rethrown NoSingleRow))"
    by (simp add: hourGetEventAnalytics_def select_event_unknown [OF u])
next
  assume h: "filter (\<lambda>e. ev_id e = eventId) (events st) = [event] \<and>
    (\<forall>opt \<in> set (bet_options st). opt_event_id opt \<noteq> eventId) \<and>
    Events \<notin> set (unavailable st) \<and> Bet_options \<notin> set (unavailable st)"
  then have ev: "select_event st eventId = Inr event"
    by (simp add: select_event_def single_def read_table_def)
  from h have no: "filter (\<lambda>opt. opt_event_id opt = eventId) (bet_options st) = []"
    by (simp add: filter_empty_conv)
  show "hourGetEventAnalytics rnd hours now st eventId = Inl NoBettingOptions"
    using h by (simp add: hourGetEventAnalytics_def ev no read_table_def)
  assume b: "Bets \<notin> set (unavailable st)"
  show "getEventAnalytics tieUp hours st eventId =
           Inr \<lparr> ea_event = event, ea_options = [], ea_currentPercentages = [],
                 ea_historicalData =
                   historicalData
                     (generateOptimizedHistoricalData tieUp
                        (sort_key placed_at (filter (\<lambda>b. bet_event_id b = eventId) (bets st)))
                        [] (\<lambda>k. Some event)),
                 ea_totalPool = total_pool event,
                 ea_insights =
                   \<lparr> leadingOption = ''No options available'', volatility = Low,
                     trend = Stable, peakBettingHour = 0, averageVelocity = 0,
                     totalBettingVelocity = 0, volatilityScore = 0,
                     trendingOption = ''No options available'',
                     lastMajorShift = None \<rparr> \<rparr>"
    using h b
    by (simp add: getEventAnalytics_def ev no read_table_def Let_def
        calculateEnhancedInsights_def)
qed

theorem facade_failures_witness:
  "getEventAnalytics doubleTies utcHours scenarioA_store ''e2'' = Inl (EventNotFound NoSingleRow) \<and>
   hourGetEventAnalytics noDraw utcHours 0 scenarioA_store ''e2'' = Inl (Rethrown NoSingleRow) \<and>
   getEventAnalytics doubleTies utcHours betsDownStore ''e2''
     = Inl (BetsError (Unavailable Bets)) \<and>
   events orphanBetStore = [sampleEvent] \<and> bet_options orphanBetStore = [] \<and>
   unavailable orphanBetStore = [] \<and>
   hourGetEventAnalytics noDraw utcHours 0 orphanBetStore ''e1'' = Inl NoBettingOptions \<and>
   getEventAnalytics doubleTies utcHours orphanBetStore ''e1'' =
     Inr \<lparr> ea_event = sampleEvent, ea_options = [], ea_currentPercentages = [],
           ea_historicalData =
             [\<lparr> timestamp = 0, percentages = [(''A'', 100)], totalPool = 400,
                participantCount = 2, totalBets = [(''A'', 100)], velocity = 0 \<rparr>],
           ea_totalPool = 400,
           ea_insights =
             \<lparr> leadingOption = ''No options available'', volatility = Low, trend = Stable,
               peakBettingHour = 0, averageVelocity = 0, totalBettingVelocity = 0,
               volatilityScore = 0, trendingOption = ''No options available'',
               lastMajorShift = None \<rparr> \<rparr>"
proof -
  have u: "\<forall>e \<in> set (events scenarioA_store). ev_id e \<noteq> ''e2''"
    by (simp add: scenarioA_store_def sampleEvent_def)
  have u': "\<forall>e \<in> set (events betsDownStore). ev_id e \<noteq> ''e2''"
    by (simp add: betsDownStore_def sampleEvent_def)
  have h: "filter (\<lambda>e. ev_id e = ''e1'') (events orphanBetStore) = [sampleEvent] \<and>
           (\<forall>opt \<in> set (bet_options orphanBetStore). opt_event_id opt \<noteq> ''e1'') \<and>
           Events \<notin> set (unavailable orphanBetStore) \<and>
           Bet_options \<notin> set (unavailable orphanBetStore)"
    by (simp add: orphanBetStore_def sampleEvent_def)
  have b: "Bets \<notin> set (unavailable orphanBetStore)"
    by (simp add: orphanBetStore_def)
  note first = facade_failures [where st = scenarioA_store and eventId = "''e2''"
                 and hours = utcHours and rnd = noDraw and now = 0 and tieUp = doubleTies,
                 THEN conjunct1, THEN mp, OF u]
  note down = facade_failures [where st = betsDownStore and eventId = "''e2''"
                 and hours = utcHours and tieUp = doubleTies,
                 THEN conjunct1, THEN mp, OF u', THEN conjunct1]
  note second = facade_failures [where st = orphanBetStore and eventId = "''e1''"
                 and hours = utcHours and rnd = noDraw and now = 0 and event = sampleEvent
                 and tieUp = doubleTies,
                 THEN conjunct2, THEN mp, OF h]
  have e: "events orphanBetStore = [sampleEvent]" "bet_options orphanBetStore = []"
    "unavailable orphanBetStore = []"
    by (simp_all add: orphanBetStore_def)
  have hist: "historicalData
      (generateOptimizedHistoricalData doubleTies
         (sort_key placed_at (filter (\<lambda>b. bet_event_id b = ''e1'') (bets orphanBetStore)))
         [] (\<lambda>k. Some sampleEvent))
      = [\<lparr> timestamp = 0, percentages = [(''A'', 100)], totalPool = 400,
            participantCount = 2, totalBets = [(''A'', 100)], velocity = 0 \<rparr>]"
    by (simp add: generateOptimizedHistoricalData_def orphanBetStore_def sampleEvent_def
        eval_defs)
  have pool: "total_pool sampleEvent = 400"
    by (simp add: sampleEvent_def)
  have a1: "getEventAnalytics doubleTies utcHours scenarioA_store ''e2''
      = Inl (EventNotFound NoSingleRow)"
    using first [THEN conjunct1] by (simp add: scenarioA_store_def)
  have a2: "hourGetEventAnalytics noDraw utcHours 0 scenarioA_store ''e2''
      = Inl (Rethrown NoSingleRow)"
    using first [THEN conjunct2] by (simp add: scenarioA_store_def)
  have a3: "getEventAnalytics doubleTies utcHours betsDownStore ''e2''
      = Inl (BetsError (Unavailable Bets))"
    using down by (simp add: betsDownStore_def)
  show ?thesis
    using a1 a2 a3 e second [THEN conjunct1] second [THEN conjunct2, THEN mp, OF b]
    unfolding hist pool by blast
qed

text \<open>
  The minute-bucketed facade on an event without options: a result, not a failure.
\<close>

theorem facade_empty_options_counterexample:
  "getEventAnalytics doubleTies utcHours emptyOptionsStore ''e1'' =
     Inr \<lparr> ea_event = sampleEvent, ea_options = [], ea_currentPercentages = [],
           ea_historicalData = [], ea_totalPool = 400,
           ea_insights =
             \<lparr> leadingOption = ''No options available'', volatility = Low, trend = Stable,
               peakBettingHour = 0, averageVelocity = 0, totalBettingVelocity = 0,
               volatilityScore = 0, trendingOption = ''No options available'',
               lastMajorShift = None \<rparr> \<rparr>"
  by (simp add: getEventAnalytics_def emptyOptionsStore_def read_table_def select_event_def
      single_def sampleEvent_def generateOptimizedHistoricalData_def
      calculateEnhancedInsights_def eval_defs)


section \<open>Reproducibility\<close>

text \<open>A point without the two fields that the event read of its pass fills.\<close>

lemma strip_bucketPoint:
  "(bucketPoint tieUp time c opts e)\<lparr>totalPool := 0, participantCount := 0\<rparr>
     = (bucketPoint tieUp time c opts e')\<lparr>totalPool := 0, participantCount := 0\<rparr>"
  by (simp add: bucketPoint_def)

lemma buildHistory_reads:
  "map (\<lambda>p. p\<lparr>totalPool := 0, participantCount := 0\<rparr>) (fst (buildHistory tieUp tm opts reads ts c k))
     = map (\<lambda>p. p\<lparr>totalPool := 0, participantCount := 0\<rparr>)
           (fst (buildHistory tieUp tm opts reads' ts c k')) \<and>
   snd (buildHistory tieUp tm opts reads ts c k) = snd (buildHistory tieUp tm opts reads' ts c k')"
proof (induction ts arbitrary: c k k')
  case Nil
  then show ?case by simp
next
  case (Cons t ts)
  show ?case
    using Cons.IH [of "addBucket (bucket_of tm t) c" "Suc k" "Suc k'"]
      strip_bucketPoint [of tieUp t "addBucket (bucket_of tm t) c" opts "reads k" "reads' k'"]
    by (simp add: Let_def split_beta)
qed

lemma history_reads:
  "map (\<lambda>p. p\<lparr>totalPool := 0, participantCount := 0\<rparr>)
       (historicalData (generateOptimizedHistoricalData tieUp bs opts reads))
     = map (\<lambda>p. p\<lparr>totalPool := 0, participantCount := 0\<rparr>)
           (historicalData (generateOptimizedHistoricalData tieUp bs opts reads'))"
proof -
  let ?tm = "groupBets bs"
  let ?ts = "sort (dict_keys ?tm)"
  let ?strip = "\<lambda>p::minute_point. p\<lparr>totalPool := 0, participantCount := 0\<rparr>"
  note b = buildHistory_reads [of tieUp ?tm opts reads ?ts "[]" 0 reads' 0]
  have comm: "?strip \<circ> (\<lambda>p. p\<lparr>totalBets := f\<rparr>) = (\<lambda>p. p\<lparr>totalBets := f\<rparr>) \<circ> ?strip" for f
    by (rule ext) simp
  have "map ?strip (map (\<lambda>p. p\<lparr>totalBets := f\<rparr>) xs)
          = map (\<lambda>p. p\<lparr>totalBets := f\<rparr>) (map ?strip xs)" for f xs
    using comm [of f] by (simp only: map_map)
  then show ?thesis
    using b by (simp only: generateOptimizedHistoricalData_def Let_def split_beta
        history_result.simps)
qed

lemma pctOf_strip: "pctOf l (p\<lparr>totalPool := a, participantCount := b\<rparr>) = pctOf l p"
  by (simp add: pctOf_def)

lemma shiftScan_map:
  assumes "\<And>a b. m (f a) (f b) = m a b" and "n < length h"
  shows "shiftScan m (map f h) n = map_option f (shiftScan m h n)"
  using assms(2)
proof (induction n)
  case 0
  then show ?case by simp
next
  case (Suc n)
  then show ?case using assms(1) by simp
qed

lemma insights_strip:
  "calculateEnhancedInsights hours opts
       (map (\<lambda>p. p\<lparr>totalPool := 0, participantCount := 0\<rparr>) h) bs
     = calculateEnhancedInsights hours opts h bs"
proof (cases opts)
  case Nil
  then show ?thesis by (simp add: calculateEnhancedInsights_def)
next
  case (Cons first others)
  let ?strip = "\<lambda>p::minute_point. p\<lparr>totalPool := 0, participantCount := 0\<rparr>"
  have pc: "pctOf l \<circ> ?strip = pctOf l" for l
    by (rule ext) (simp add: pctOf_strip)
  have ch: "map (\<lambda>(prevPoint, point). \<bar>pctOf l point - pctOf l prevPoint\<bar>)
                 (zip (map ?strip h) (tl (map ?strip h)))
            = map (\<lambda>(prevPoint, point). \<bar>pctOf l point - pctOf l prevPoint\<bar>) (zip h (tl h))"
    for l
    by (simp add: map_tl [symmetric] zip_map_map split_beta pctOf_strip comp_def del: map_tl)
  have vol: "volatilityOf l (map ?strip h) = volatilityOf l h" for l
    unfolding volatilityOf_def ch by simp
  have tr: "trendOf l (map ?strip h) = trendOf l h" for l
    by (simp add: trendOf_def drop_map pc)
  have vel: "map (velocity \<circ> ?strip) h = map velocity h"
    by (simp add: comp_def)
  have lst: "h \<noteq> [] \<Longrightarrow> pctOf l (last (map ?strip h)) = pctOf l (last h)" for l
    by (simp add: last_map pctOf_strip)
  have sh: "lastMajorShiftOf l (map ?strip h) = lastMajorShiftOf l h" for l
  proof (cases "h = []")
    case True
    then show ?thesis by (simp add: lastMajorShiftOf_def)
  next
    case False
    then have "length h - 1 < length h" by simp
    then show ?thesis
      by (simp add: lastMajorShiftOf_def shiftScan_map pctOf_strip option.map_comp comp_def)
  qed
  show ?thesis
    unfolding Cons calculateEnhancedInsights_def
    by (simp add: vol tr sh lst vel Let_def split_beta cong: if_cong)
qed

text \<open>
  C9.  What is reproducible.  Hour-bucketed variant: while the read of the bets succeeds,
  the whole result of \<open>getEventAnalytics\<close> is the same for every source of random
  numbers.  Minute-bucketed variant: the timestamps, percentages, velocities and running
  totals of the series and all insights are the same whatever the event reads made inside
  the history loop answer; only \<open>totalPool\<close> and \<open>participantCount\<close> of the points
  come from those reads.
\<close>

theorem reproducible_outputs:
  "(Bets \<notin> set (unavailable st) \<longrightarrow>
      hourGetEventAnalytics rnd hours now st eventId
        = hourGetEventAnalytics rnd' hours now st eventId) \<and>
   generateRealHistoricalData rnd now (Inr allBets) hopts
     = generateRealHistoricalData rnd' now (Inr allBets) hopts \<and>
   map (\<lambda>p. (timestamp p, percentages p, velocity p, totalBets p))
       (historicalData (generateOptimizedHistoricalData tieUp bs opts reads))
     = map (\<lambda>p. (timestamp p, percentages p, velocity p, totalBets p))
           (historicalData (generateOptimizedHistoricalData tieUp bs opts reads')) \<and>
   calculateEnhancedInsights hours opts
       (historicalData (generateOptimizedHistoricalData tieUp bs opts reads)) bs
     = calculateEnhancedInsights hours opts
         (historicalData (generateOptimizedHistoricalData tieUp bs opts reads')) bs"
proof (intro conjI impI)
  assume up: "Bets \<notin> set (unavailable st)"
  have key: "generateRealHistoricalData rnd now (read_table st Bets rows) optionsWithColors
      = generateRealHistoricalData rnd' now (read_table st Bets rows) optionsWithColors"
    for rows optionsWithColors
    using up by (simp add: generateRealHistoricalData_def read_table_def)
  show "hourGetEventAnalytics rnd hours now st eventId
        = hourGetEventAnalytics rnd' hours now st eventId"
    unfolding hourGetEventAnalytics_def Let_def key by (rule refl)
next
  show "generateRealHistoricalData rnd now (Inr allBets) hopts
     = generateRealHistoricalData rnd' now (Inr allBets) hopts"
    by (simp add: generateRealHistoricalData_def)
next
  let ?strip = "\<lambda>p::minute_point. p\<lparr>totalPool := 0, participantCount := 0\<rparr>"
  let ?view = "\<lambda>p::minute_point. (timestamp p, percentages p, velocity p, totalBets p)"
  have v: "map ?view (map ?strip xs) = map ?view xs" for xs
    by simp
  have "map ?view (historicalData (generateOptimizedHistoricalData tieUp bs opts reads))
      = map ?view (map ?strip (historicalData (generateOptimizedHistoricalData tieUp bs opts reads)))"
    by (simp only: v)
  also have "\<dots>
      = map ?view (map ?strip (historicalData (generateOptimizedHistoricalData tieUp bs opts reads')))"
    by (simp only: history_reads [of tieUp bs opts reads reads'])
  also have "\<dots> = map ?view (historicalData (generateOptimizedHistoricalData tieUp bs opts reads'))"
    by (simp only: v)
  finally show "map ?view (historicalData (generateOptimizedHistoricalData tieUp bs opts reads))
     = map ?view (historicalData (generateOptimizedHistoricalData tieUp bs opts reads'))" .
next
  show "calculateEnhancedInsights hours opts
       (historicalData (generateOptimizedHistoricalData tieUp bs opts reads)) bs
     = calculateEnhancedInsights hours opts
         (historicalData (generateOptimizedHistoricalData tieUp bs opts reads')) bs"
    using insights_strip [of hours opts
            "historicalData (generateOptimizedHistoricalData tieUp bs opts reads)" bs]
      insights_strip [of hours opts
            "historicalData (generateOptimizedHistoricalData tieUp bs opts reads')" bs]
      history_reads [of tieUp bs opts reads reads']
    by simp
qed

theorem reproducible_outputs_witness:
  "Bets \<notin> set (unavailable scenarioA_store) \<and>
   isl (hourGetEventAnalytics noDraw utcHours 3600000 scenarioA_store ''e1'') = False \<and>
   hourGetEventAnalytics noDraw utcHours 3600000 scenarioA_store ''e1''
     = hourGetEventAnalytics highDraw utcHours 3600000 scenarioA_store ''e1''"
proof -
  have b: "Bets \<notin> set (unavailable scenarioA_store)"
    by (simp add: scenarioA_store_def)
  have r: "isl (hourGetEventAnalytics noDraw utcHours 3600000 scenarioA_store ''e1'') = False"
    by (simp add: hourGetEventAnalytics_def scenarioA_store_def select_event_def single_def
        read_table_def sampleEvent_def scenarioA_options_def sampleOption_def Let_def)
  show ?thesis
    using reproducible_outputs [where st = scenarioA_store and rnd = noDraw and rnd' = highDraw
            and hours = utcHours and now = 3600000 and eventId = "''e1''",
            THEN conjunct1, THEN mp, OF b] b r
    by simp
qed

text \<open>
  With the same store, options and clock, and the read of the bets failing, two runs
  that draw different random numbers return different series: the last point has the
  betting velocity 1 when every draw is 0 and 5 when every draw is 0.9.
\<close>

theorem reproducible_counterexample:
  "h_bettingVelocity (last (ha_historicalData
      (projr (hourGetEventAnalytics noDraw utcHours 3600000 betsDownStore ''e1'')))) = Some 1 \<and>
   h_bettingVelocity (last (ha_historicalData
      (projr (hourGetEventAnalytics highDraw utcHours 3600000 betsDownStore ''e1'')))) = Some 5 \<and>
   hourGetEventAnalytics noDraw utcHours 3600000 betsDownStore ''e1''
     \<noteq> hourGetEventAnalytics highDraw utcHours 3600000 betsDownStore ''e1''"
proof -
  have hist: "ha_historicalData (projr (hourGetEventAnalytics rnd utcHours 3600000 betsDownStore ''e1''))
      = generateFallbackHistoricalData rnd 3600000
          [\<lparr> row = sampleOption ''A'' 100, color = ''#3B82F6'', optTotalBets = 100 \<rparr>,
           \<lparr> row = sampleOption ''B'' 300, color = ''#EF4444'', optTotalBets = 300 \<rparr>]" for rnd
    by (simp add: hourGetEventAnalytics_def betsDownStore_def select_event_def single_def
        read_table_def sampleEvent_def scenarioA_options_def Let_def
        generateRealHistoricalData_def OPTION_COLORS_def)
       (simp add: sampleOption_def)
  have vel: "h_bettingVelocity (last (generateFallbackHistoricalData rnd now opts))
      = Some (of_int \<lfloor>rnd (23 * (length opts + 2) + length opts + 1) * 5\<rfloor> + 1)" for rnd now opts
    by (simp add: generateFallbackHistoricalData_def Let_def last_map fallbackPoint_def)
  have a: "h_bettingVelocity (last (ha_historicalData
      (projr (hourGetEventAnalytics noDraw utcHours 3600000 betsDownStore ''e1'')))) = Some 1"
    unfolding hist vel by (simp add: noDraw_def)
  have b: "h_bettingVelocity (last (ha_historicalData
      (projr (hourGetEventAnalytics highDraw utcHours 3600000 betsDownStore ''e1'')))) = Some 5"
    unfolding hist vel by (simp add: highDraw_def)
  from a b have "hourGetEventAnalytics noDraw utcHours 3600000 betsDownStore ''e1''
     \<noteq> hourGetEventAnalytics highDraw utcHours 3600000 betsDownStore ''e1''"
    by auto
  with a b show ?thesis by blast
qed

section \<open>Momentum of the realtime snapshot\<close>

lemma foldl_amount: "foldl (\<lambda>sum bet. sum + amount bet) a bs = a + sum_list (map amount bs)"
  by (induction bs arbitrary: a) simp_all

lemma fold_dict_set_Some:
  "dict_get (fold (\<lambda>x m. dict_set (key x) (g x) m) xs d) k = Some v \<Longrightarrow>
   (\<exists>x \<in> set xs. key x = k \<and> v = g x) \<or> dict_get d k = Some v"
proof (induction xs arbitrary: d)
  case Nil
  then show ?case by simp
next
  case (Cons x xs)
  from Cons.IH [of "dict_set (key x) (g x) d"] Cons.prems
  have "(\<exists>y \<in> set xs. key y = k \<and> v = g y) \<or>
        dict_get (dict_set (key x) (g x) d) k = Some v"
    by simp
  then show ?case
    by (auto simp: dict_get_dict_set split: if_splits)
qed

lemma has_key_fold_dict_set:
  "has_key (fold (\<lambda>x m. dict_set (key x) (g x) m) xs d) k = (k \<in> key ` set xs \<or> has_key d k)"
  by (induction xs arbitrary: d) (auto simp: has_key_dict_set)

text \<open>
  C10.  In a realtime snapshot every option of the event has a momentum entry, and the
  entry of an option id is the ratio of the amount bet on it in the last hour to the
  stored total of an option with that id (to 1 when the total is 0), times 100, when that
  amount is positive, and 0 otherwise.  When the stored total of the option and the
  amounts of its recent bets are not negative, the momentum is greater than or equal
  to 0.
\<close>

theorem realtime_momentum_ratio:
  assumes "getRealTimeBettingStats tieUp st now stamp eventId = Inr stats"
  shows "(\<forall>opt \<in> set (bet_options st).
            opt_event_id opt = eventId \<longrightarrow> has_key (rt_momentum stats) (opt_id opt)) \<and>
         (dict_get (rt_momentum stats) optionId = Some m \<longrightarrow>
            (\<exists>opt \<in> set (bet_options st).
               opt_event_id opt = eventId \<and> opt_id opt = optionId \<and>
               m = (if 0 < sum_list (map amount
                            (filter (\<lambda>bet. option_id bet = optionId)
                               (filter (\<lambda>b. bet_event_id b = eventId \<and>
                                             placed_at b \<ge> now - 60 * 60 * 1000) (bets st))))
                    then sum_list (map amount
                            (filter (\<lambda>bet. option_id bet = optionId)
                               (filter (\<lambda>b. bet_event_id b = eventId \<and>
                                             placed_at b \<ge> now - 60 * 60 * 1000) (bets st))))
                         / (if total_bets opt = 0 then 1 else total_bets opt) * 100
                    else 0)) \<and>
            ((\<forall>opt \<in> set (bet_options st).
                opt_event_id opt = eventId \<and> opt_id opt = optionId \<longrightarrow> 0 \<le> total_bets opt) \<and>
             (\<forall>b \<in> set (bets st).
                bet_event_id b = eventId \<and> placed_at b \<ge> now - 60 * 60 * 1000 \<and>
                option_id b = optionId \<longrightarrow> 0 \<le> amount b) \<longrightarrow>
             0 \<le> m))"
proof -
  let ?opts = "filter (\<lambda>opt. opt_event_id opt = eventId) (bet_options st)"
  let ?recent = "filter (\<lambda>b. bet_event_id b = eventId \<and> placed_at b \<ge> now - 60 * 60 * 1000)
                        (bets st)"
  let ?R = "\<lambda>k. sum_list (map amount (filter (\<lambda>bet. option_id bet = k) ?recent))"
  let ?g = "\<lambda>option. if 0 < ?R (opt_id option)
                       then ?R (opt_id option)
                            / (if total_bets option = 0 then 1 else total_bets option) * 100
                       else 0"
  from assms have "rt_momentum stats = realtimeMomentum ?opts ?recent"
    by (auto simp: getRealTimeBettingStats_def read_table_def Let_def
        split: sum.splits if_splits)
  then have mom: "rt_momentum stats = fold (\<lambda>option m. dict_set (opt_id option) (?g option) m) ?opts []"
    by (simp add: realtimeMomentum_def Let_def foldl_amount num_or_def
        del: filter_filter cong: if_cong)
  have keys: "\<forall>opt \<in> set (bet_options st).
            opt_event_id opt = eventId \<longrightarrow> has_key (rt_momentum stats) (opt_id opt)"
    unfolding mom has_key_fold_dict_set by auto
  have val: "\<exists>opt \<in> set (bet_options st).
               opt_event_id opt = eventId \<and> opt_id opt = optionId \<and> m = ?g opt"
    if "dict_get (rt_momentum stats) optionId = Some m"
  proof -
    from that have "(\<exists>x \<in> set ?opts. opt_id x = optionId \<and> m = ?g x) \<or>
                    dict_get ([] :: (string, real) dict) optionId = Some m"
      unfolding mom by (rule fold_dict_set_Some)
    then show ?thesis by (auto simp: dict_get_def)
  qed
  have nonneg: "0 \<le> m"
    if g: "dict_get (rt_momentum stats) optionId = Some m"
      and o: "\<forall>opt \<in> set (bet_options st).
                opt_event_id opt = eventId \<and> opt_id opt = optionId \<longrightarrow> 0 \<le> total_bets opt"
  proof -
    from val [OF g] obtain opt where opt: "opt \<in> set (bet_options st)"
      "opt_event_id opt = eventId" "opt_id opt = optionId" "m = ?g opt"
      by blast
    with o have "0 \<le> total_bets opt" by blast
    then have "0 < (if total_bets opt = 0 then 1 else total_bets opt)" by simp
    then show ?thesis unfolding opt(4) by simp
  qed
  have "\<exists>opt \<in> set (bet_options st).
               opt_event_id opt = eventId \<and> opt_id opt = optionId \<and>
               m = (if 0 < ?R optionId
                    then ?R optionId / (if total_bets opt = 0 then 1 else total_bets opt) * 100
                    else 0)"
    if "dict_get (rt_momentum stats) optionId = Some m"
    using val [OF that] by auto
  with keys nonneg show ?thesis by blast
qed

theorem realtime_momentum_ratio_witness:
  "getRealTimeBettingStats doubleTies momentumStore 0 0 ''e1'' =
     Inr \<lparr> rt_timestamp = 0, rt_percentages = [(''A'', 50), (''B'', - (5 / 4))],
           rt_totalPool = 400, rt_participantCount = 2, rt_bettingVelocity = 1,
           rt_momentum = [(''A'', 50), (''B'', 0)],
           rt_options = [(sampleOption ''A'' 200, ''#16a34a''),
                         (sampleOption ''B'' (- 5), ''#dc2626'')] \<rparr> \<and>
   (0::real) \<le> 50"
proof -
  let ?stats = "\<lparr> rt_timestamp = 0, rt_percentages = [(''A'', 50), (''B'', - (5 / 4))],
           rt_totalPool = 400, rt_participantCount = 2, rt_bettingVelocity = 1,
           rt_momentum = [(''A'', 50), (''B'', 0)],
           rt_options = [(sampleOption ''A'' 200, ''#16a34a''),
                         (sampleOption ''B'' (- 5), ''#dc2626'')] \<rparr>"
  have r: "getRealTimeBettingStats doubleTies momentumStore 0 0 ''e1'' = Inr ?stats"
    by (simp add: getRealTimeBettingStats_def momentumStore_def select_event_def single_def
        read_table_def sampleEvent_def realtimeMomentum_def getOptionColor_def eval_defs)
  have g: "dict_get (rt_momentum ?stats) ''A'' = Some 50"
    by (simp add: dict_get_def)
  have o: "\<forall>opt \<in> set (bet_options momentumStore).
             opt_event_id opt = ''e1'' \<and> opt_id opt = ''A'' \<longrightarrow> 0 \<le> total_bets opt"
    by (simp add: momentumStore_def sampleOption_def)
  have b: "\<forall>b \<in> set (bets momentumStore).
             bet_event_id b = ''e1'' \<and> placed_at b \<ge> 0 - 60 * 60 * 1000 \<and>
             option_id b = ''A'' \<longrightarrow> 0 \<le> amount b"
    by (simp add: momentumStore_def sampleBet_def)
  have "(0::real) \<le> 50"
    using realtime_momentum_ratio [OF r, where optionId = "''A''" and m = 50,
            THEN conjunct2, THEN mp, OF g, THEN conjunct2, THEN mp, OF conjI [OF o b]] .
  with r show ?thesis by blast
qed

end
